theory Spec2Isabelle
  imports Complex_Main
begin

section \<open>Exceptions\<close>

text \<open>
  Python exceptions are values. \<open>Exception m\<close> is \<^verbatim>\<open>raise Exception(m)\<close> of the
  repository's own code; \<open>ExternalError m\<close> is any exception raised inside a library
  call (httpx transport and status errors, a malformed reply body, the OpenAI client,
  the scraper's browser); \<open>KeyError\<close>, \<open>TypeError\<close>, \<open>AttributeError\<close> and
  \<open>ValidationError\<close> are the interpreter's and pydantic's; \<open>HTTPException\<close> is
  FastAPI's, with its status code and detail.
\<close>

datatype error =
    Exception string
  | ExternalError string
  | KeyError string
  | TypeError
  | AttributeError
  | ValidationError
  | HTTPException nat string

section \<open>Image enhancement (app/ai/image\_enhancer.py)\<close>

type_synonym bytes = string

record EnhancedImage =
  original_url :: string
  enhanced_url :: string
  style :: string
  processing_time :: real
  enhancement_type :: string

text \<open>A JSON request body: the dict literal of the source, keys in source order.\<close>

datatype pval = PNone | PBool bool | PInt int | PReal real | PStr string

type_synonym payload = "(string \<times> pval) list"

text \<open>
  One reply to \<^verbatim>\<open>GET /generations/{id}\<close> as the polling loop reads it:
  \<open>GetRaises e\<close> when the request, \<^verbatim>\<open>raise_for_status\<close> or a key lookup in the body
  raises; otherwise the \<^verbatim>\<open>status\<close> string of \<^verbatim>\<open>generations_by_pk\<close> and the urls of its
  \<^verbatim>\<open>generated_images\<close>.
\<close>

datatype poll_reply = GetRaises error | Generation string "string list"

text \<open>
  The image service and the libraries the enhancer calls. \<open>http_get\<close> is
  \<^verbatim>\<open>client.get(url)\<close> followed by \<^verbatim>\<open>raise_for_status()\<close> and \<^verbatim>\<open>.content\<close>;
  \<open>post_generations\<close> is \<^verbatim>\<open>client.post(.../generations)\<close>, \<^verbatim>\<open>raise_for_status()\<close> and the
  lookup of \<^verbatim>\<open>["sdGenerationJob"]["generationId"]\<close>; \<open>get_generation gid n\<close> is the reply
  to the \<open>n\<close>-th poll (counted from 0) of job \<open>gid\<close>; \<open>elapsed url\<close> is the wall-clock
  duration \<^verbatim>\<open>time.time() - start_time\<close> measured by the run on \<open>url\<close>.
\<close>

record leonardo =
  http_get :: "string \<Rightarrow> error + bytes"
  post_generations :: "payload \<Rightarrow> error + string"
  get_generation :: "string \<Rightarrow> nat \<Rightarrow> poll_reply"
  b64encode :: "bytes \<Rightarrow> string"
  md5_hexdigest :: "bytes \<Rightarrow> string"
  AWS_S3_BUCKET :: string
  elapsed :: "string \<Rightarrow> real"

definition max_attempts :: nat where
  "max_attempts = 30"

text \<open>
  The \<^verbatim>\<open>while attempt < max_attempts\<close> loop of \<^verbatim>\<open>_poll_generation_completion\<close>. The
  state is the attempt counter and the seconds slept so far; the result carries both,
  so that the number of polls and the waiting time can be read off.
\<close>

function poll_loop :: "(nat \<Rightarrow> poll_reply) \<Rightarrow> nat \<Rightarrow> nat \<Rightarrow> (error + string) \<times> nat \<times> nat" where
  "poll_loop get attempt slept =
     (if attempt < max_attempts then
        (case get attempt of
           GetRaises e \<Rightarrow> (Inl e, attempt, slept)
         | Generation st images \<Rightarrow>
             if st = ''COMPLETE'' then
               (case images of
                  u # _ \<Rightarrow> (Inr u, attempt, slept)
                | [] \<Rightarrow> (Inl (Exception ''No images generated''), attempt, slept))
             else if st = ''FAILED'' then
               (Inl (Exception ''Image generation failed''), attempt, slept)
             else poll_loop get (attempt + 1) (slept + 10))
      else (Inl (Exception ''Generation timeout''), attempt, slept))"
  by pat_completeness auto
termination
  by (relation "measure (\<lambda>(get, attempt, slept). max_attempts - attempt)") auto

declare poll_loop.simps [simp del]

definition poll_generation_completion :: "leonardo \<Rightarrow> string \<Rightarrow> (error + string) \<times> nat \<times> nat" where
  "poll_generation_completion env generation_id =
     poll_loop (get_generation env generation_id) 0 0"

definition download_image :: "leonardo \<Rightarrow> string \<Rightarrow> error + bytes" where
  "download_image env url = http_get env url"

definition upload_enhanced_image :: "leonardo \<Rightarrow> bytes \<Rightarrow> string" where
  "upload_enhanced_image env image_data =
     (let image_hash = md5_hexdigest env image_data
      in ''https://'' @ AWS_S3_BUCKET env @ ''.s3.amazonaws.com/enhanced/'' @ image_hash @ ''.jpg'')"

text \<open>
  The three passes share one shape: build the payload, submit, poll, download the
  output; the whole body sits in \<^verbatim>\<open>try: ... except Exception: return image_data\<close>.
\<close>

definition submit_poll_download :: "leonardo \<Rightarrow> payload \<Rightarrow> bytes \<Rightarrow> bytes" where
  "submit_poll_download env pl image_data =
     (case post_generations env pl of
        Inl e \<Rightarrow> image_data
      | Inr generation_id \<Rightarrow>
          (case fst (poll_generation_completion env generation_id) of
             Inl e \<Rightarrow> image_data
           | Inr output_url \<Rightarrow>
               (case download_image env output_url of
                  Inl e \<Rightarrow> image_data
                | Inr enhanced \<Rightarrow> enhanced)))"

definition quality_payload :: "string \<Rightarrow> payload" where
  "quality_payload image_b64 =
     [(''height'', PInt 1024),
      (''width'', PInt 1024),
      (''prompt'', PStr ''high quality product photo, professional lighting, clean background, commercial photography style''),
      (''negative_prompt'', PStr ''blurry, low quality, pixelated, distorted, watermark, text''),
      (''num_images'', PInt 1),
      (''guidance_scale'', PInt 7),
      (''seed'', PNone),
      (''presetStyle'', PStr ''PHOTOGRAPHY''),
      (''scheduler'', PStr ''DPM_SOLVER''),
      (''public'', PBool False),
      (''promptMagic'', PBool True),
      (''init_image_b64'', PStr image_b64),
      (''init_strength'', PReal 0.3)]"

definition enhance_image_quality :: "leonardo \<Rightarrow> bytes \<Rightarrow> bytes" where
  "enhance_image_quality env image_data =
     submit_poll_download env (quality_payload (b64encode env image_data)) image_data"

definition background_payload :: "string \<Rightarrow> payload" where
  "background_payload image_b64 =
     [(''height'', PInt 1024),
      (''width'', PInt 1024),
      (''prompt'', PStr ''product on transparent background, isolated object, clean cutout, white background''),
      (''negative_prompt'', PStr ''busy background, cluttered, multiple objects, text, watermark''),
      (''num_images'', PInt 1),
      (''guidance_scale'', PInt 8),
      (''presetStyle'', PStr ''NONE''),
      (''scheduler'', PStr ''DPM_SOLVER''),
      (''public'', PBool False),
      (''promptMagic'', PBool True),
      (''init_image_b64'', PStr image_b64),
      (''init_strength'', PReal 0.5)]"

definition remove_background :: "leonardo \<Rightarrow> bytes \<Rightarrow> bytes" where
  "remove_background env image_data =
     submit_poll_download env (background_payload (b64encode env image_data)) image_data"

definition style_prompts :: "(string \<times> string) list" where
  "style_prompts =
     [(''modern'', ''modern minimalist product photography, clean lines, contemporary style, professional lighting''),
      (''luxury'', ''luxury product photography, premium quality, elegant styling, sophisticated lighting, high-end commercial''),
      (''minimal'', ''minimalist product photo, simple clean background, soft lighting, zen aesthetic''),
      (''professional'', ''professional commercial photography, studio lighting, corporate style, business quality'')]"

definition style_payload :: "string \<Rightarrow> string \<Rightarrow> payload" where
  "style_payload style_prompt image_b64 =
     [(''height'', PInt 1024),
      (''width'', PInt 1024),
      (''prompt'', PStr (style_prompt @ '', high resolution, sharp details, commercial quality'')),
      (''negative_prompt'', PStr ''blurry, low quality, amateur, poor lighting, distorted''),
      (''num_images'', PInt 1),
      (''guidance_scale'', PInt 6),
      (''presetStyle'', PStr ''PHOTOGRAPHY''),
      (''scheduler'', PStr ''DPM_SOLVER''),
      (''public'', PBool False),
      (''promptMagic'', PBool True),
      (''init_image_b64'', PStr image_b64),
      (''init_strength'', PReal 0.2)]"

definition style_prompt_for :: "string \<Rightarrow> string" where
  "style_prompt_for sty =
     (case map_of style_prompts sty of
        Some p \<Rightarrow> p
      | None \<Rightarrow> the (map_of style_prompts ''modern''))"

definition apply_style_enhancement :: "leonardo \<Rightarrow> bytes \<Rightarrow> string \<Rightarrow> bytes" where
  "apply_style_enhancement env image_data sty =
     (let style_prompt = style_prompt_for sty
      in submit_poll_download env (style_payload style_prompt (b64encode env image_data)) image_data)"

text \<open>
  \<^verbatim>\<open>enhance_single_image\<close>: the body of the \<^verbatim>\<open>try\<close> raises only where the first download
  raises (the passes absorb their own exceptions and the upload computes a URL from a
  hash), and the \<^verbatim>\<open>except Exception\<close> branch returns the fallback record.
\<close>

definition enhance_single_image ::
    "leonardo \<Rightarrow> string \<Rightarrow> string \<Rightarrow> bool \<Rightarrow> bool \<Rightarrow> EnhancedImage" where
  "enhance_single_image env image_url sty enhance_quality remove_bg =
     (case download_image env image_url of
        Inr original_image \<Rightarrow>
          (let enhanced_image =
                 (if enhance_quality then enhance_image_quality env original_image
                  else original_image);
               enhanced_image =
                 (if remove_bg then remove_background env enhanced_image
                  else enhanced_image);
               final_image = apply_style_enhancement env enhanced_image sty;
               enhanced = upload_enhanced_image env final_image
           in \<lparr>original_url = image_url,
               enhanced_url = enhanced,
               style = sty,
               processing_time = elapsed env image_url,
               enhancement_type = ''full_enhancement''\<rparr>)
      | Inl e \<Rightarrow>
          \<lparr>original_url = image_url,
           enhanced_url = image_url,
           style = sty,
           processing_time = elapsed env image_url,
           enhancement_type = ''fallback_original''\<rparr>)"

text \<open>
  \<^verbatim>\<open>enhance_product_images\<close>: one task per url of \<^verbatim>\<open>image_urls[:5]\<close>, with
  \<^verbatim>\<open>remove_background\<close> left at its default \<^verbatim>\<open>False\<close>;
  \<^verbatim>\<open>asyncio.gather(*tasks, return_exceptions=True)\<close> yields, in task order, each task's
  result or the exception it raised; the final loop keeps the \<^verbatim>\<open>EnhancedImage\<close>
  instances.
\<close>

definition gather_return_exceptions :: "(error + 'a) list \<Rightarrow> (error + 'a) list" where
  "gather_return_exceptions tasks = tasks"

definition enhance_product_images ::
    "leonardo \<Rightarrow> string list \<Rightarrow> string \<Rightarrow> bool \<Rightarrow> EnhancedImage list" where
  "enhance_product_images env image_urls sty enhance_quality =
     (let tasks = map (\<lambda>url. Inr (enhance_single_image env url sty enhance_quality False))
                      (take 5 image_urls);
          results = gather_return_exceptions tasks
      in List.map_filter (\<lambda>result. case result of Inr img \<Rightarrow> Some img | Inl e \<Rightarrow> None) results)"

subsection \<open>Vocabulary for the polling and pass claims\<close>

text \<open>
  A reply is pending when the loop goes on after it: a job status other than
  \<^verbatim>\<open>COMPLETE\<close> and \<^verbatim>\<open>FAILED\<close>. \<open>poll_outcome\<close> is what the claim says a reply that is not
  pending leads to: the first output url, or the failure. \<open>pass_fails\<close> says that the
  submit, the poll or the download of a pass raises.
\<close>

definition pending :: "poll_reply \<Rightarrow> bool" where
  "pending r = (case r of GetRaises e \<Rightarrow> False | Generation st images \<Rightarrow> st \<noteq> ''COMPLETE'' \<and> st \<noteq> ''FAILED'')"

definition poll_outcome :: "poll_reply \<Rightarrow> error + string" where
  "poll_outcome r =
     (case r of
        GetRaises e \<Rightarrow> Inl e
      | Generation st images \<Rightarrow>
          if st = ''COMPLETE'' then
            (case images of u # _ \<Rightarrow> Inr u | [] \<Rightarrow> Inl (Exception ''No images generated''))
          else Inl (Exception ''Image generation failed''))"

definition pass_fails :: "leonardo \<Rightarrow> payload \<Rightarrow> bool" where
  "pass_fails env pl =
     (case post_generations env pl of
        Inl e \<Rightarrow> True
      | Inr generation_id \<Rightarrow>
          (case fst (poll_generation_completion env generation_id) of
             Inl e \<Rightarrow> True
           | Inr output_url \<Rightarrow> isl (download_image env output_url)))"

section \<open>Content generation (app/ai/content\_generator.py)\<close>

text \<open>
  The two pydantic models share field names with the scraper's model, and a record
  field is a constant of the theory: \<open>ProductInfo\<close> keeps the source's names. The field
  \<^verbatim>\<open>keywords\<close> of \<^verbatim>\<open>GeneratedContent\<close> is \<open>content_keywords\<close> here, its name being reserved.
\<close>

record ProductInfo =
  title :: string
  description :: string
  features :: "string list"
  specifications :: "(string \<times> string) list"
  category :: string
  price_range :: "string option"

record GeneratedContent =
  product_title :: string
  product_description :: string
  seo_title :: string
  seo_description :: string
  homepage_hero :: "(string \<times> string) list"
  about_page :: string
  faq_items :: "(string \<times> string) list list"
  product_benefits :: "string list"
  content_keywords :: "string list"

text \<open>
  What \<^verbatim>\<open>json.loads\<close> returns. A \<open>JObj\<close> is the association list of a Python dict
  (its keys are distinct); the numbers that occur are integers.
\<close>

datatype json =
    JNull
  | JBool bool
  | JNum int
  | JStr string
  | JArr "json list"
  | JObj "(string \<times> json) list"

text \<open>The six call sites of \<^verbatim>\<open>self.client.chat.completions.create\<close>.\<close>

datatype generation = ProductCopy | SeoContent | HomepageContent | AboutPage | FaqContent | Keywords

text \<open>
  The text service and the JSON parser. \<open>chat_completion g p\<close> is the outcome of the
  request that call site \<open>g\<close> builds from product \<open>p\<close> (its prompt, temperature and
  \<^verbatim>\<open>max_tokens\<close> are fixed per call site and reach nothing but the service): \<open>Inl e\<close> when
  \<^verbatim>\<open>create(...)\<close> or \<^verbatim>\<open>response.choices[0].message\<close> raises, otherwise the value of
  \<^verbatim>\<open>.content\<close>, an optional string. \<open>json_loads s\<close> is \<open>None\<close> where \<^verbatim>\<open>json.loads(s)\<close> raises
  \<^verbatim>\<open>JSONDecodeError\<close>.
\<close>

record textgen =
  chat_completion :: "generation \<Rightarrow> ProductInfo \<Rightarrow> error + string option"
  json_loads :: "string \<Rightarrow> json option"

text \<open>Sequencing of computations that may raise.\<close>

definition and_then :: "error + 'a \<Rightarrow> ('a \<Rightarrow> error + 'b) \<Rightarrow> error + 'b" where
  "and_then m f = (case m of Inl e \<Rightarrow> Inl e | Inr x \<Rightarrow> f x)"

text \<open>
  The shape shared by the five JSON call sites: the request is outside the \<^verbatim>\<open>try\<close>, so
  its exception propagates; \<^verbatim>\<open>json.loads\<close> of a \<^verbatim>\<open>None\<close> content raises \<^verbatim>\<open>TypeError\<close>,
  which \<^verbatim>\<open>except json.JSONDecodeError\<close> does not catch; only a decode error leads
  to the fallback, which may read the reply text.
\<close>

definition loads_or_fallback ::
    "textgen \<Rightarrow> generation \<Rightarrow> ProductInfo \<Rightarrow> (string \<Rightarrow> json) \<Rightarrow> error + json" where
  "loads_or_fallback env g product_info fallback =
     (case chat_completion env g product_info of
        Inl e \<Rightarrow> Inl e
      | Inr None \<Rightarrow> Inl TypeError
      | Inr (Some content) \<Rightarrow>
          (case json_loads env content of
             Some parsed \<Rightarrow> Inr parsed
           | None \<Rightarrow> Inr (fallback content)))"

definition generate_product_copy :: "textgen \<Rightarrow> ProductInfo \<Rightarrow> error + json" where
  "generate_product_copy env product_info =
     loads_or_fallback env ProductCopy product_info
       (\<lambda>content.
          JObj [(''title'', JStr (title product_info)),
                (''description'', JStr (take 300 content)),
                (''benefits'', JArr (map JStr (take 5 (features product_info))))])"

definition generate_seo_content :: "textgen \<Rightarrow> ProductInfo \<Rightarrow> error + json" where
  "generate_seo_content env product_info =
     loads_or_fallback env SeoContent product_info
       (\<lambda>content.
          JObj [(''title'', JStr (title product_info @ '' - Best Quality Online Store'')),
                (''description'',
                 JStr (''Shop '' @ title product_info @
                       '' with fast shipping and great prices. Premium quality guaranteed.''))])"

definition generate_homepage_content :: "textgen \<Rightarrow> ProductInfo \<Rightarrow> error + json" where
  "generate_homepage_content env product_info =
     loads_or_fallback env HomepageContent product_info
       (\<lambda>content.
          JObj [(''headline'', JStr (''Premium '' @ category product_info @ '' Collection'')),
                (''subheadline'',
                 JStr (''Discover high-quality '' @ title product_info @
                       '' with fast shipping worldwide'')),
                (''cta_text'', JStr ''Shop Now''),
                (''features_headline'', JStr ''Why Choose Us'')])"

text \<open>\<^verbatim>\<open>generate_about_page\<close> has no \<^verbatim>\<open>try\<close>: it returns the reply's content as it is.\<close>

definition generate_about_page :: "textgen \<Rightarrow> ProductInfo \<Rightarrow> error + string option" where
  "generate_about_page env product_info = chat_completion env AboutPage product_info"

definition fallback_faqs :: json where
  "fallback_faqs =
     JArr [JObj [(''question'', JStr ''What is your shipping policy?''),
                 (''answer'', JStr ''We offer free shipping on orders over $50. Standard delivery takes 3-7 business days.'')],
           JObj [(''question'', JStr ''What is your return policy?''),
                 (''answer'', JStr ''We accept returns within 30 days of delivery for a full refund. Items must be in original condition.'')],
           JObj [(''question'', JStr ''Is this product authentic?''),
                 (''answer'', JStr ''Yes, all our products are 100% authentic and come with a quality guarantee.'')]]"

definition generate_faq_content :: "textgen \<Rightarrow> ProductInfo \<Rightarrow> error + json" where
  "generate_faq_content env product_info =
     loads_or_fallback env FaqContent product_info (\<lambda>content. fallback_faqs)"

text \<open>\<^verbatim>\<open>str.lower()\<close> on ASCII text.\<close>

definition lower_char :: "char \<Rightarrow> char" where
  "lower_char c =
     (let n = (of_char c :: nat) in if 65 \<le> n \<and> n \<le> 90 then char_of (n + 32) else c)"

definition lower :: "string \<Rightarrow> string" where
  "lower s = map lower_char s"

definition generate_keywords :: "textgen \<Rightarrow> ProductInfo \<Rightarrow> error + json" where
  "generate_keywords env product_info =
     loads_or_fallback env Keywords product_info
       (\<lambda>content.
          JArr [JStr (lower (title product_info)),
                JStr (''best '' @ category product_info),
                JStr (''buy '' @ title product_info),
                JStr (category product_info @ '' online''),
                JStr (''premium '' @ category product_info)])"

text \<open>
  \<^verbatim>\<open>results[0]["title"]\<close>: a dict raises \<^verbatim>\<open>KeyError\<close> on a missing key, any other JSON
  value raises \<^verbatim>\<open>TypeError\<close> on a string subscript.
\<close>

fun subscript :: "json \<Rightarrow> string \<Rightarrow> error + json" where
  "subscript (JObj kvs) k = (case map_of kvs k of Some v \<Rightarrow> Inr v | None \<Rightarrow> Inl (KeyError k))"
| "subscript j k = Inl TypeError"

text \<open>
  Validation of the \<^verbatim>\<open>GeneratedContent\<close> fields (pydantic 2: a \<^verbatim>\<open>str\<close> field takes a
  string, \<^verbatim>\<open>Dict[str, str]\<close> a dict of strings, \<^verbatim>\<open>List[...]\<close> a list).
\<close>

fun as_str :: "json \<Rightarrow> string option" where
  "as_str (JStr s) = Some s"
| "as_str j = None"

fun sequence_option :: "'a option list \<Rightarrow> 'a list option" where
  "sequence_option [] = Some []"
| "sequence_option (None # xs) = None"
| "sequence_option (Some x # xs) = map_option ((#) x) (sequence_option xs)"

fun as_str_list :: "json \<Rightarrow> string list option" where
  "as_str_list (JArr xs) = sequence_option (map as_str xs)"
| "as_str_list j = None"

fun as_str_dict :: "json \<Rightarrow> (string \<times> string) list option" where
  "as_str_dict (JObj kvs) =
     sequence_option (map (\<lambda>(k, v). map_option (Pair k) (as_str v)) kvs)"
| "as_str_dict j = None"

fun as_str_dict_list :: "json \<Rightarrow> (string \<times> string) list list option" where
  "as_str_dict_list (JArr xs) = sequence_option (map as_str_dict xs)"
| "as_str_dict_list j = None"

definition validate_GeneratedContent ::
    "json \<Rightarrow> json \<Rightarrow> json \<Rightarrow> json \<Rightarrow> json \<Rightarrow> string option \<Rightarrow> json \<Rightarrow> json \<Rightarrow> json
      \<Rightarrow> error + GeneratedContent" where
  "validate_GeneratedContent p_title p_description s_title s_description hero about faq benefits kws =
     (case (as_str p_title, as_str p_description, as_str s_title, as_str s_description,
            as_str_dict hero, about, as_str_dict_list faq, as_str_list benefits, as_str_list kws) of
        (Some a, Some b, Some c, Some d, Some e, Some f, Some g, Some h, Some i) \<Rightarrow>
          Inr \<lparr>product_title = a, product_description = b, seo_title = c, seo_description = d,
               homepage_hero = e, about_page = f, faq_items = g, product_benefits = h,
               content_keywords = i\<rparr>
      | _ \<Rightarrow> Inl ValidationError)"

text \<open>
  \<^verbatim>\<open>generate_complete_content\<close>. \<^verbatim>\<open>asyncio.gather(*tasks)\<close> is called without
  \<^verbatim>\<open>return_exceptions\<close>: when a task raises, the exception propagates out of the
  \<^verbatim>\<open>await\<close>. Which of several raising tasks is reported depends on timing; the model
  reports the first in task order. The arguments of the constructor are evaluated in
  source order before validation.
\<close>

definition generate_complete_content :: "textgen \<Rightarrow> ProductInfo \<Rightarrow> error + GeneratedContent" where
  "generate_complete_content env product_info =
     and_then (generate_product_copy env product_info) (\<lambda>r0.
     and_then (generate_seo_content env product_info) (\<lambda>r1.
     and_then (generate_homepage_content env product_info) (\<lambda>r2.
     and_then (generate_about_page env product_info) (\<lambda>r3.
     and_then (generate_faq_content env product_info) (\<lambda>r4.
     and_then (generate_keywords env product_info) (\<lambda>r5.
     and_then (subscript r0 ''title'') (\<lambda>p_title.
     and_then (subscript r0 ''description'') (\<lambda>p_description.
     and_then (subscript r1 ''title'') (\<lambda>s_title.
     and_then (subscript r1 ''description'') (\<lambda>s_description.
     and_then (subscript r0 ''benefits'') (\<lambda>benefits.
       validate_GeneratedContent p_title p_description s_title s_description
         r2 r3 r4 benefits r5)))))))))))"

subsection \<open>The fallback content\<close>


section \<open>The store and its assembly (app/models, app/services/store\_generator.py)\<close>

text \<open>
  The scraper's model. Its fields carry the prefix \<open>sp_\<close>, the names without it being
  those of \<open>ProductInfo\<close>.
\<close>

record ScrapedProduct =
  sp_title :: string
  sp_description :: string
  sp_price :: "string option"
  sp_images :: "string list"
  sp_features :: "string list"
  sp_specifications :: "(string \<times> string) list"
  sp_category :: string
  sp_brand :: "string option"
  sp_rating :: "real option"
  sp_reviews_count :: "int option"

text \<open>
  A row of the table \<^verbatim>\<open>stores\<close>. The primary key \<^verbatim>\<open>id\<close> is \<open>store_id\<close>; the SEO columns
  carry the prefix \<open>store_\<close>, their names being fields of \<open>GeneratedContent\<close> too. The
  JSON columns hold JSON values, except \<^verbatim>\<open>enhanced_images\<close>, which holds the
  \<^verbatim>\<open>.dict()\<close> of each \<open>EnhancedImage\<close> and is kept as such, and \<^verbatim>\<open>brand_colors\<close>, a
  dict or \<^verbatim>\<open>None\<close>. \<^verbatim>\<open>created_at\<close> is set by the database when the row is inserted.
\<close>

type_synonym datetime = int

record Store =
  store_id :: int
  user_id :: int
  store_name :: string
  shopify_theme_id :: "string option"
  shopify_store_url :: "string option"
  source_product_url :: string
  source_platform :: string
  ai_generated_content :: json
  enhanced_images :: "EnhancedImage list"
  theme_style :: string
  brand_colors :: "(string \<times> json) list option"
  store_pages :: json
  status :: string
  generation_progress :: int
  error_message :: "string option"
  store_seo_title :: "string option"
  store_seo_description :: "string option"
  store_seo_keywords :: "string list"
  created_at :: datetime
  updated_at :: "datetime option"
  published_at :: "datetime option"

subsection \<open>Python values as JSON\<close>

definition str_list :: "string list \<Rightarrow> json" where
  "str_list xs = JArr (map JStr xs)"

definition str_dict :: "(string \<times> string) list \<Rightarrow> json" where
  "str_dict kvs = JObj (map (\<lambda>(k, v). (k, JStr v)) kvs)"

definition opt_str :: "string option \<Rightarrow> json" where
  "opt_str x = (case x of Some s \<Rightarrow> JStr s | None \<Rightarrow> JNull)"

text \<open>\<^verbatim>\<open>d.get(key, default)\<close> on a dict of strings.\<close>

definition get_or :: "(string \<times> string) list \<Rightarrow> string \<Rightarrow> string \<Rightarrow> string" where
  "get_or kvs k dflt = (case map_of kvs k of Some v \<Rightarrow> v | None \<Rightarrow> dflt)"

subsection \<open>Static page texts\<close>

text \<open>\<^verbatim>\<open>store.store_name.lower().replace(' ', '')\<close> inside the contact page.\<close>

definition generate_contact_page_content :: "Store \<Rightarrow> string" where
  "generate_contact_page_content store =
     ''\<newline>'' @
     ''        <h2>Get in Touch</h2>\<newline>'' @
     ''        <p>We're here to help! Contact us with any questions about our products or services.</p>\<newline>'' @
     ''        \<newline>'' @
     ''        <h3>Customer Service</h3>\<newline>'' @
     ''        <p>Email: support@'' @
     filter (\<lambda>c. c \<noteq> CHR '' '') (lower (store_name store)) @
     ''.com</p>\<newline>'' @
     ''        <p>Response time: Within 24 hours</p>\<newline>'' @
     ''        \<newline>'' @
     ''        <h3>Business Hours</h3>\<newline>'' @
     ''        <p>Monday - Friday: 9:00 AM - 6:00 PM EST</p>\<newline>'' @
     ''        <p>Saturday - Sunday: 10:00 AM - 4:00 PM EST</p>\<newline>'' @
     ''        \<newline>'' @
     ''        <h3>Returns & Exchanges</h3>\<newline>'' @
     ''        <p>We accept returns within 30 days of purchase. Please contact us to initiate a return.</p>\<newline>'' @
     ''        ''"

definition generate_shipping_policy :: string where
  "generate_shipping_policy =
     ''\<newline>'' @
     ''        <h2>Shipping Information</h2>\<newline>'' @
     ''        \<newline>'' @
     ''        <h3>Processing Time</h3>\<newline>'' @
     ''        <p>All orders are processed within 1-2 business days. Orders are not shipped or delivered on weekends or holidays.</p>\<newline>'' @
     ''        \<newline>'' @
     ''        <h3>Shipping Rates & Delivery Estimates</h3>\<newline>'' @
     ''        <ul>\<newline>'' @
     ''            <li><strong>Standard Shipping:</strong> 5-7 business days - $5.99</li>\<newline>'' @
     ''            <li><strong>Express Shipping:</strong> 2-3 business days - $12.99</li>\<newline>'' @
     ''            <li><strong>Overnight Shipping:</strong> 1 business day - $24.99</li>\<newline>'' @
     ''        </ul>\<newline>'' @
     ''        \<newline>'' @
     ''        <p><strong>Free shipping on orders over $50!</strong></p>\<newline>'' @
     ''        \<newline>'' @
     ''        <h3>International Shipping</h3>\<newline>'' @
     ''        <p>We ship worldwide. International shipping rates and delivery times vary by destination.</p>\<newline>'' @
     ''        \<newline>'' @
     ''        <h3>Returns</h3>\<newline>'' @
     ''        <p>We accept returns within 30 days of delivery. Items must be unused and in original packaging.</p>\<newline>'' @
     ''        ''"

definition generate_privacy_policy :: string where
  "generate_privacy_policy =
     ''\<newline>'' @
     ''        <h2>Privacy Policy</h2>\<newline>'' @
     ''        \<newline>'' @
     ''        <h3>Information We Collect</h3>\<newline>'' @
     ''        <p>We collect information you provide directly to us, such as when you create an account, make a purchase, or contact us.</p>\<newline>'' @
     ''        \<newline>'' @
     ''        <h3>How We Use Your Information</h3>\<newline>'' @
     ''        <ul>\<newline>'' @
     ''            <li>Process and fulfill your orders</li>\<newline>'' @
     ''            <li>Send you important updates about your order</li>\<newline>'' @
     ''            <li>Improve our products and services</li>\<newline>'' @
     ''            <li>Comply with legal obligations</li>\<newline>'' @
     ''        </ul>\<newline>'' @
     ''        \<newline>'' @
     ''        <h3>Information Sharing</h3>\<newline>'' @
     ''        <p>We do not sell, trade, or otherwise transfer your personal information to third parties without your consent, except as described in this policy.</p>\<newline>'' @
     ''        \<newline>'' @
     ''        <h3>Data Security</h3>\<newline>'' @
     ''        <p>We implement appropriate security measures to protect your personal information against unauthorized access, alteration, disclosure, or destruction.</p>\<newline>'' @
     ''        \<newline>'' @
     ''        <h3>Contact Us</h3>\<newline>'' @
     ''        <p>If you have any questions about this Privacy Policy, please contact us.</p>\<newline>'' @
     ''        ''"

subsection \<open>Theme tables\<close>

definition color_schemes :: "(string \<times> (string \<times> string) list) list" where
  "color_schemes =
     [(''modern'',
       [(''primary'', ''#3b82f6''), (''secondary'', ''#64748b''), (''accent'', ''#f59e0b''),
        (''background'', ''#ffffff''), (''text'', ''#1f2937'')]),
      (''luxury'',
       [(''primary'', ''#1f2937''), (''secondary'', ''#d97706''), (''accent'', ''#92400e''),
        (''background'', ''#f9fafb''), (''text'', ''#111827'')]),
      (''minimal'',
       [(''primary'', ''#000000''), (''secondary'', ''#6b7280''), (''accent'', ''#9ca3af''),
        (''background'', ''#ffffff''), (''text'', ''#374151'')])]"

definition font_configs :: "(string \<times> (string \<times> string) list) list" where
  "font_configs =
     [(''modern'', [(''primary'', ''Inter, sans-serif''), (''secondary'', ''System UI, sans-serif'')]),
      (''luxury'', [(''primary'', ''Playfair Display, serif''), (''secondary'', ''Source Sans Pro, sans-serif'')]),
      (''minimal'', [(''primary'', ''Helvetica Neue, sans-serif''), (''secondary'', ''Arial, sans-serif'')])]"

definition layout_configs :: "(string \<times> (string \<times> string) list) list" where
  "layout_configs =
     [(''modern'', [(''header_style'', ''clean''), (''product_layout'', ''grid''), (''spacing'', ''comfortable'')]),
      (''luxury'', [(''header_style'', ''elegant''), (''product_layout'', ''showcase''), (''spacing'', ''spacious'')]),
      (''minimal'', [(''header_style'', ''simple''), (''product_layout'', ''minimal''), (''spacing'', ''tight'')])]"

text \<open>\<^verbatim>\<open>table.get(theme_style, table["modern"])\<close>.\<close>

definition theme_lookup ::
    "(string \<times> (string \<times> string) list) list \<Rightarrow> string \<Rightarrow> (string \<times> string) list" where
  "theme_lookup table sty =
     (case map_of table sty of Some v \<Rightarrow> v | None \<Rightarrow> the (map_of table ''modern''))"

definition generate_default_colors :: "string \<Rightarrow> (string \<times> string) list" where
  "generate_default_colors sty = theme_lookup color_schemes sty"

definition get_theme_fonts :: "string \<Rightarrow> (string \<times> string) list" where
  "get_theme_fonts sty = theme_lookup font_configs sty"

definition get_theme_layout :: "string \<Rightarrow> (string \<times> string) list" where
  "get_theme_layout sty = theme_lookup layout_configs sty"

subsection \<open>The assembler\<close>

text \<open>
  \<^verbatim>\<open>_build_store_structure\<close> returns a dict; it is the JSON object below, keys in
  source order. \<open>isoformat\<close> is \<^verbatim>\<open>datetime.isoformat\<close>. The two conditional expressions
  that choose an image are kept as separate definitions.
\<close>

definition featured_image :: "ScrapedProduct \<Rightarrow> EnhancedImage list \<Rightarrow> json" where
  "featured_image scraped_product imgs =
     (case imgs of
        img # _ \<Rightarrow> JStr (enhanced_url img)
      | [] \<Rightarrow>
          (case sp_images scraped_product of
             url # _ \<Rightarrow> JStr url
           | [] \<Rightarrow> JNull))"

definition og_image :: "EnhancedImage list \<Rightarrow> json" where
  "og_image imgs = (case imgs of img # _ \<Rightarrow> JStr (enhanced_url img) | [] \<Rightarrow> JNull)"

definition build_store_structure ::
    "(datetime \<Rightarrow> string) \<Rightarrow> Store \<Rightarrow> ScrapedProduct \<Rightarrow> GeneratedContent \<Rightarrow> EnhancedImage list
      \<Rightarrow> json" where
  "build_store_structure isoformat store scraped_product generated_content imgs =
     (let product_data =
            JObj [(''title'', JStr (product_title generated_content)),
                  (''description'', JStr (product_description generated_content)),
                  (''benefits'', str_list (product_benefits generated_content)),
                  (''original_title'', JStr (sp_title scraped_product)),
                  (''original_description'', JStr (sp_description scraped_product)),
                  (''price'', opt_str (sp_price scraped_product)),
                  (''features'', str_list (sp_features scraped_product)),
                  (''specifications'', str_dict (sp_specifications scraped_product)),
                  (''category'', JStr (sp_category scraped_product)),
                  (''images'',
                   JObj [(''original'', str_list (sp_images scraped_product)),
                         (''enhanced'', str_list (map enhanced_url imgs))])];
          homepage_data =
            JObj [(''hero'', str_dict (homepage_hero generated_content)),
                  (''featured_product'',
                   JObj [(''title'', JStr (product_title generated_content)),
                         (''description'',
                          JStr (take 200 (product_description generated_content) @ ''...'')),
                         (''image'', featured_image scraped_product imgs),
                         (''cta_text'',
                          JStr (get_or (homepage_hero generated_content) ''cta_text'' ''Shop Now''))]),
                  (''features_section'',
                   JObj [(''headline'',
                          JStr (get_or (homepage_hero generated_content) ''features_headline''
                                  ''Why Choose Us'')),
                         (''features'', str_list (take 3 (product_benefits generated_content)))])];
          pages_data =
            JObj [(''about'',
                   JObj [(''title'', JStr ''About Us''),
                         (''content'', JStr (about_page generated_content))]),
                  (''faq'',
                   JObj [(''title'', JStr ''Frequently Asked Questions''),
                         (''items'', JArr (map str_dict (faq_items generated_content)))]),
                  (''contact'',
                   JObj [(''title'', JStr ''Contact Us''),
                         (''content'', JStr (generate_contact_page_content store))]),
                  (''shipping'',
                   JObj [(''title'', JStr ''Shipping & Returns''),
                         (''content'', JStr generate_shipping_policy)]),
                  (''privacy'',
                   JObj [(''title'', JStr ''Privacy Policy''),
                         (''content'', JStr generate_privacy_policy)])];
          seo_data =
            JObj [(''title'', JStr (seo_title generated_content)),
                  (''description'', JStr (seo_description generated_content)),
                  (''keywords'', str_list (content_keywords generated_content)),
                  (''og_image'', og_image imgs)];
          theme_data =
            JObj [(''style'', JStr (theme_style store)),
                  (''colors'',
                   (case brand_colors store of
                      Some (c # cs) \<Rightarrow> JObj (c # cs)
                    | _ \<Rightarrow> str_dict (generate_default_colors (theme_style store)))),
                  (''fonts'', str_dict (get_theme_fonts (theme_style store))),
                  (''layout'', str_dict (get_theme_layout (theme_style store)))]
      in JObj [(''product'', product_data),
               (''homepage'', homepage_data),
               (''pages'', pages_data),
               (''seo'', seo_data),
               (''theme'', theme_data),
               (''generated_at'', JStr (isoformat (created_at store))),
               (''store_name'', JStr (store_name store)),
               (''source_url'', JStr (source_product_url store))])"

subsection \<open>Reading a document\<close>


section \<open>The database session\<close>

text \<open>
  A row of the table \<^verbatim>\<open>users\<close>, with the columns the services read; its primary key
  \<^verbatim>\<open>id\<close> is \<open>uid\<close>.
\<close>

record User =
  uid :: int
  email :: string
  shopify_shop_domain :: string
  shopify_access_token :: string
  subscription_plan :: string
  stores_built :: int
  monthly_limit :: int
  company :: "string option"

text \<open>
  The database as the services see it through their session: the two tables, and the
  sequence of states of a store row that \<^verbatim>\<open>db.commit()\<close> has made durable, oldest
  first. A client that polls the store observes the members of that sequence.
\<close>

record db =
  store_rows :: "Store list"
  user_rows :: "User list"
  commits :: "Store list"

text \<open>\<^verbatim>\<open>db.query(Store).filter(Store.id == store_id).first()\<close>\<close>

definition query_store :: "db \<Rightarrow> int \<Rightarrow> Store option" where
  "query_store d sid = find (\<lambda>s. store_id s = sid) (store_rows d)"

definition query_user :: "db \<Rightarrow> int \<Rightarrow> User option" where
  "query_user d i = find (\<lambda>u. uid u = i) (user_rows d)"

text \<open>\<^verbatim>\<open>db.commit()\<close> with the attribute writes pending on the loaded row \<open>store\<close>.\<close>

definition commit :: "db \<Rightarrow> Store \<Rightarrow> db" where
  "commit d store =
     d\<lparr>store_rows := map (\<lambda>s. if store_id s = store_id store then store else s) (store_rows d),
       commits := commits d @ [store]\<rparr>"

section \<open>The orchestrator (StoreGeneratorService.generate\_complete\_store)\<close>

text \<open>Decimal rendering of an integer inside an f-string.\<close>

fun str_nat :: "nat \<Rightarrow> string" where
  "str_nat n =
     (if n < 10 then [char_of (48 + n)]
      else str_nat (n div 10) @ [char_of (48 + n mod 10)])"

declare str_nat.simps [simp del]

definition str_int :: "int \<Rightarrow> string" where
  "str_int i = (if i < 0 then ''-'' @ str_nat (nat (- i)) else str_nat (nat i))"

text \<open>
  The collaborators of the service: the scraper (\<open>Inl\<close> when \<^verbatim>\<open>scrape_product\<close> raises),
  the content generator's and the image enhancer's services, \<^verbatim>\<open>datetime.isoformat\<close>,
  and \<open>render\<close>, the text \<^verbatim>\<open>str(e)\<close> of an exception raised by the interpreter or by
  pydantic.
\<close>

record services =
  scraper :: "string \<Rightarrow> error + ScrapedProduct"
  content_generator :: textgen
  image_enhancer :: leonardo
  isoformat :: "datetime \<Rightarrow> string"
  render :: "error \<Rightarrow> string"

text \<open>
  \<^verbatim>\<open>str(e)\<close>: the message of an \<^verbatim>\<open>Exception(m)\<close>, and the text a library exception
  carries.
\<close>

definition str_of :: "services \<Rightarrow> error \<Rightarrow> string" where
  "str_of env e =
     (case e of
        Exception m \<Rightarrow> m
      | ExternalError m \<Rightarrow> m
      | _ \<Rightarrow> render env e)"

definition update_store_progress :: "db \<Rightarrow> Store \<Rightarrow> int \<Rightarrow> string \<Rightarrow> Store \<times> db" where
  "update_store_progress d store progress message =
     (let store = store\<lparr>generation_progress := progress, error_message := Some message\<rparr>
      in (store, commit d store))"

text \<open>
  The body of the \<^verbatim>\<open>try\<close> of \<^verbatim>\<open>generate_complete_store\<close>: its outcome and the database
  it leaves. The calls to the logger are left out.
\<close>

definition generation_steps :: "services \<Rightarrow> db \<Rightarrow> int \<Rightarrow> string \<Rightarrow> (error + json) \<times> db" where
  "generation_steps env d sid product_url =
     (case query_store d sid of
        None \<Rightarrow> (Inl (Exception (''Store '' @ str_int sid @ '' not found'')), d)
      | Some store \<Rightarrow>
          (let (store, d) = update_store_progress d store 10 ''Scraping product data...'' in
           case scraper env product_url of
             Inl e \<Rightarrow> (Inl e, d)
           | Inr scraped_product \<Rightarrow>
               (let (store, d) = update_store_progress d store 25 ''Generating AI content...'';
                    product_info =
                      \<lparr>title = sp_title scraped_product,
                       description = sp_description scraped_product,
                       features = sp_features scraped_product,
                       specifications = sp_specifications scraped_product,
                       category = sp_category scraped_product,
                       price_range = sp_price scraped_product\<rparr>
                in
                case generate_complete_content (content_generator env) product_info of
                  Inl e \<Rightarrow> (Inl e, d)
                | Inr generated_content \<Rightarrow>
                    (let (store, d) =
                           update_store_progress d store 50 ''Enhancing product images...'';
                         imgs =
                           (if sp_images scraped_product \<noteq> [] then
                              enhance_product_images (image_enhancer env)
                                (sp_images scraped_product) (theme_style store) True
                            else []);
                         (store, d) =
                           update_store_progress d store 75 ''Building store structure...'';
                         store_data =
                           build_store_structure (isoformat env) store scraped_product
                             generated_content imgs;
                         (store, d) = update_store_progress d store 90 ''Finalizing store...'';
                         store =
                           store\<lparr>ai_generated_content := store_data,
                                 enhanced_images := imgs,
                                 store_seo_title := Some (seo_title generated_content),
                                 store_seo_description := Some (seo_description generated_content),
                                 store_seo_keywords := content_keywords generated_content,
                                 status := ''completed'',
                                 generation_progress := 100,
                                 error_message := None\<rparr>;
                         d = commit d store
                     in (Inr (JObj [(''store_id'', JNum sid),
                                    (''status'', JStr ''completed''),
                                    (''store_data'', store_data),
                                    (''enhanced_images'', JNum (int (length imgs))),
                                    (''message'', JStr ''Store generated successfully'')]),
                         d)))))"

text \<open>
  \<^verbatim>\<open>generate_complete_store\<close>: the \<^verbatim>\<open>except\<close> branch loads the store again, marks it
  and commits, then raises the exception again.
\<close>

definition generate_complete_store ::
    "services \<Rightarrow> db \<Rightarrow> int \<Rightarrow> string \<Rightarrow> (error + json) \<times> db" where
  "generate_complete_store env d sid product_url =
     (case generation_steps env d sid product_url of
        (Inr result, d') \<Rightarrow> (Inr result, d')
      | (Inl e, d') \<Rightarrow>
          (case query_store d' sid of
             Some store \<Rightarrow>
               (Inl e,
                commit d' (store\<lparr>status := ''error'', error_message := Some (str_of env e)\<rparr>))
           | None \<Rightarrow> (Inl e, d')))"

subsection \<open>Vocabulary for the progress claims\<close>

text \<open>
  The progress values that a run from database \<open>d\<close> to database \<open>d'\<close> has committed, in
  order, and the values that \<^verbatim>\<open>_update_store_progress\<close> is called with.
\<close>

definition progress_trace :: "db \<Rightarrow> db \<Rightarrow> int list" where
  "progress_trace d d' = map generation_progress (drop (length (commits d)) (commits d'))"

definition checkpoints :: "int list" where
  "checkpoints = [10, 25, 50, 75, 90]"

section \<open>Publishing (services/shopify\_client.py, publish\_to\_shopify, api/stores.py)\<close>

text \<open>
  The commerce platform. \<open>shopify_post url headers payload\<close> is \<^verbatim>\<open>client.post\<close>,
  \<^verbatim>\<open>raise_for_status()\<close> and \<^verbatim>\<open>response.json()\<close>; \<open>py_str\<close> is \<^verbatim>\<open>str\<close> of a value that is
  not a string, as an f-string renders it. Every function that may post returns, next
  to its outcome, the list of the posts it made, in order.
\<close>

record shopify =
  shopify_post :: "string \<Rightarrow> (string \<times> string) list \<Rightarrow> json \<Rightarrow> error + json"
  py_str :: "json \<Rightarrow> string"

type_synonym calls = "(string \<times> json) list"

record ShopifyClient =
  shop_domain :: string
  access_token :: string
  api_version :: string
  base_url :: string

definition ShopifyClient_init :: "string \<Rightarrow> string \<Rightarrow> ShopifyClient" where
  "ShopifyClient_init domain token =
     \<lparr>shop_domain = domain, access_token = token, api_version = ''2024-04'',
      base_url = ''https://'' @ domain @ ''/admin/api/'' @ ''2024-04''\<rparr>"

definition get_headers :: "ShopifyClient \<Rightarrow> (string \<times> string) list" where
  "get_headers client =
     [(''X-Shopify-Access-Token'', access_token client),
      (''Content-Type'', ''application/json''),
      (''Accept'', ''application/json'')]"

text \<open>\<^verbatim>\<open>d.get(key, default)\<close> on a dict, and the truth value of a JSON value.\<close>

definition dict_get :: "(string \<times> json) list \<Rightarrow> string \<Rightarrow> json \<Rightarrow> json" where
  "dict_get kvs k dflt = (case map_of kvs k of Some v \<Rightarrow> v | None \<Rightarrow> dflt)"

fun truthy :: "json \<Rightarrow> bool" where
  "truthy JNull = False"
| "truthy (JBool b) = b"
| "truthy (JNum n) = (n \<noteq> 0)"
| "truthy (JStr s) = (s \<noteq> [])"
| "truthy (JArr xs) = (xs \<noteq> [])"
| "truthy (JObj kvs) = (kvs \<noteq> [])"

definition create_product ::
    "shopify \<Rightarrow> ShopifyClient \<Rightarrow> (string \<times> json) list \<Rightarrow> (error + json) \<times> calls" where
  "create_product shop client product_data =
     (let url = base_url client @ ''/products.json'';
          headers = get_headers client;
          product =
            [(''title'', dict_get product_data ''title'' JNull),
             (''body_html'', dict_get product_data ''body_html'' (JStr [])),
             (''vendor'', dict_get product_data ''vendor'' (JStr ''StoreForge'')),
             (''product_type'', dict_get product_data ''product_type'' (JStr ''General'')),
             (''tags'', dict_get product_data ''tags'' (JStr [])),
             (''published'', JBool True),
             (''variants'',
              JArr [JObj [(''price'', dict_get product_data ''price'' (JStr ''29.99'')),
                          (''inventory_quantity'', JNum 100),
                          (''inventory_management'', JStr ''shopify'')]])];
          product =
            (if truthy (dict_get product_data ''images'' JNull) then
               product @ [(''images'', dict_get product_data ''images'' JNull)]
             else product);
          payload = JObj [(''product'', JObj product)]
      in (and_then (shopify_post shop url headers payload) (\<lambda>body. subscript body ''product''),
          [(url, payload)]))"

definition create_page ::
    "shopify \<Rightarrow> ShopifyClient \<Rightarrow> (string \<times> json) list \<Rightarrow> (error + json) \<times> calls" where
  "create_page shop client page_data =
     (let url = base_url client @ ''/pages.json'';
          headers = get_headers client;
          payload =
            JObj [(''page'',
                   JObj [(''title'', dict_get page_data ''title'' JNull),
                         (''body_html'', dict_get page_data ''body_html'' (JStr [])),
                         (''published'', dict_get page_data ''published'' (JBool True)),
                         (''template_suffix'', dict_get page_data ''template_suffix'' JNull)])]
      in (and_then (shopify_post shop url headers payload) (\<lambda>body. subscript body ''page''),
          [(url, payload)]))"

text \<open>A value inside an f-string.\<close>

definition fmt_value :: "shopify \<Rightarrow> json \<Rightarrow> string" where
  "fmt_value shop j = (case j of JStr s \<Rightarrow> s | _ \<Rightarrow> py_str shop j)"

text \<open>
  \<^verbatim>\<open>_format_page_content\<close>, called on a dict. The loop over \<^verbatim>\<open>page_content["items"]\<close>
  runs over the elements of a list; an empty string or dict gives no iteration, and
  any other value raises \<^verbatim>\<open>TypeError\<close>, when it is iterated or when its first element
  is subscripted.
\<close>

fun faq_items_html :: "shopify \<Rightarrow> json list \<Rightarrow> error + string" where
  "faq_items_html shop [] = Inr []"
| "faq_items_html shop (item # rest) =
     and_then (subscript item ''question'') (\<lambda>question.
     and_then (subscript item ''answer'') (\<lambda>answer.
     and_then (faq_items_html shop rest) (\<lambda>html.
       Inr (''\<newline>'' @
            ''                <div class=\"faq-item\">\<newline>'' @
            ''                    <h3>'' @ fmt_value shop question @ ''</h3>\<newline>'' @
            ''                    <p>'' @ fmt_value shop answer @ ''</p>\<newline>'' @
            ''                </div>\<newline>'' @
            ''                '' @ html))))"

definition format_page_content :: "shopify \<Rightarrow> (string \<times> json) list \<Rightarrow> error + string" where
  "format_page_content shop page_content =
     (if map_of page_content ''items'' \<noteq> None then
        and_then (subscript (JObj page_content) ''title'') (\<lambda>t.
        and_then (subscript (JObj page_content) ''items'') (\<lambda>items.
        and_then
          (case items of
             JArr xs \<Rightarrow> faq_items_html shop xs
           | JStr [] \<Rightarrow> Inr []
           | JObj [] \<Rightarrow> Inr []
           | _ \<Rightarrow> Inl TypeError)
          (\<lambda>html. Inr (''<h1>'' @ fmt_value shop t @ ''</h1>'' @ html))))
      else
        and_then (subscript (JObj page_content) ''title'') (\<lambda>t.
        and_then (subscript (JObj page_content) ''content'') (\<lambda>c.
          Inr (''<h1>'' @ fmt_value shop t @ ''</h1><div>'' @ fmt_value shop c @ ''</div>''))))"

text \<open>
  \<^verbatim>\<open>_create_store_pages\<close>: the loop over \<^verbatim>\<open>pages_data.items()\<close>. The dict literal passed
  to \<^verbatim>\<open>create_page\<close> subscripts \<^verbatim>\<open>page_content\<close> first, so the formatter is reached
  with a dict only.
\<close>

fun create_pages_loop ::
    "shopify \<Rightarrow> ShopifyClient \<Rightarrow> (string \<times> json) list \<Rightarrow> (error + unit) \<times> calls" where
  "create_pages_loop shop client [] = (Inr (), [])"
| "create_pages_loop shop client ((page_key, page_content) # rest) =
     (if page_key \<in> set [''about'', ''faq'', ''contact'', ''shipping'', ''privacy''] then
        (case and_then (subscript page_content ''title'') (\<lambda>t.
              and_then (case page_content of
                          JObj kvs \<Rightarrow> format_page_content shop kvs
                        | _ \<Rightarrow> Inl TypeError) (\<lambda>html.
                Inr [(''title'', t), (''body_html'', JStr html), (''published'', JBool True)])) of
           Inl e \<Rightarrow> (Inl e, [])
         | Inr page_data \<Rightarrow>
             (case create_page shop client page_data of
                (Inl e, made) \<Rightarrow> (Inl e, made)
              | (Inr page, made) \<Rightarrow>
                  (let (r, later) = create_pages_loop shop client rest in (r, made @ later))))
      else create_pages_loop shop client rest)"

definition create_store_pages ::
    "shopify \<Rightarrow> ShopifyClient \<Rightarrow> Store \<Rightarrow> (error + unit) \<times> calls" where
  "create_store_pages shop client store =
     (case ai_generated_content store of
        JObj doc \<Rightarrow>
          (case dict_get doc ''pages'' (JObj []) of
             JObj pages_data \<Rightarrow> create_pages_loop shop client pages_data
           | _ \<Rightarrow> (Inl AttributeError, []))
      | _ \<Rightarrow> (Inl AttributeError, []))"

text \<open>\<^verbatim>\<open>", ".join(xs)\<close>\<close>

fun join :: "string \<Rightarrow> string list \<Rightarrow> string" where
  "join sep [] = []"
| "join sep [x] = x"
| "join sep (x # y # ys) = x @ sep @ join sep (y # ys)"

text \<open>
  \<^verbatim>\<open>publish_to_shopify\<close>: outcome, database and posts made. The \<^verbatim>\<open>except\<close> branch logs
  and raises again. The service sets no condition on the status of the store.
\<close>

definition publish_to_shopify :: "shopify \<Rightarrow> db \<Rightarrow> int \<Rightarrow> (error + json) \<times> db \<times> calls" where
  "publish_to_shopify shop d sid =
     (case query_store d sid of
        None \<Rightarrow> (Inl (Exception (''Store '' @ str_int sid @ '' not found'')), d, [])
      | Some store \<Rightarrow>
          (case query_user d (user_id store) of
             None \<Rightarrow> (Inl (Exception ''User not found''), d, [])
           | Some user \<Rightarrow>
               (let client = ShopifyClient_init (shopify_shop_domain user) (shopify_access_token user)
                in
                case ai_generated_content store of
                  JObj doc \<Rightarrow>
                    (case dict_get doc ''product'' (JObj []) of
                       JObj product_data \<Rightarrow>
                         (let (r, made) =
                                create_product shop client
                                  [(''title'', dict_get product_data ''title'' (JStr (store_name store))),
                                   (''body_html'', dict_get product_data ''description'' (JStr [])),
                                   (''vendor'',
                                    JStr (case company user of
                                            Some c \<Rightarrow> if c \<noteq> [] then c else ''StoreForge''
                                          | None \<Rightarrow> ''StoreForge'')),
                                   (''product_type'', dict_get doc ''category'' (JStr ''General'')),
                                   (''tags'', JStr (join '', '' (store_seo_keywords store))),
                                   (''images'',
                                    JArr (map (\<lambda>img. JObj [(''src'', JStr (enhanced_url img))])
                                            (filter (\<lambda>img. enhanced_url img \<noteq> [])
                                               (enhanced_images store))))]
                          in
                          case r of
                            Inl e \<Rightarrow> (Inl e, d, made)
                          | Inr shopify_product \<Rightarrow>
                              (case create_store_pages shop client store of
                                 (Inl e, later) \<Rightarrow> (Inl e, d, made @ later)
                               | (Inr u, later) \<Rightarrow>
                                   (let store =
                                          store\<lparr>shopify_store_url :=
                                                  Some (''https://'' @ shopify_shop_domain user),
                                                status := ''published''\<rparr>;
                                        d = commit d store
                                    in
                                    (case shopify_product of
                                       JObj p \<Rightarrow>
                                         Inr (JObj [(''store_id'', JNum sid),
                                                    (''status'', JStr ''published''),
                                                    (''shopify_url'',
                                                     opt_str (shopify_store_url store)),
                                                    (''product_id'', dict_get p ''id'' JNull),
                                                    (''message'',
                                                     JStr ''Store published successfully'')])
                                     | _ \<Rightarrow> Inl AttributeError,
                                     d, made @ later))))
                     | _ \<Rightarrow> (Inl AttributeError, d, []))
                | _ \<Rightarrow> (Inl AttributeError, d, []))))"

text \<open>
  \<^verbatim>\<open>_publish_store_background\<close> builds a service and awaits \<^verbatim>\<open>publish_to_shopify\<close>
  inside \<^verbatim>\<open>try: ... except Exception: pass\<close>.
\<close>

definition publish_store_background :: "shopify \<Rightarrow> db \<Rightarrow> int \<Rightarrow> db \<times> calls" where
  "publish_store_background shop d sid =
     (case publish_to_shopify shop d sid of (r, d', made) \<Rightarrow> (d', made))"

text \<open>
  The route \<^verbatim>\<open>POST /stores/{store_id}/publish\<close>: its response, or the \<^verbatim>\<open>HTTPException\<close>
  it raises, and the store ids passed to \<^verbatim>\<open>background_tasks.add_task\<close>.
\<close>

definition publish_store :: "db \<Rightarrow> int \<Rightarrow> User \<Rightarrow> (error + json) \<times> int list" where
  "publish_store d sid current_user =
     (case find (\<lambda>s. store_id s = sid \<and> user_id s = uid current_user) (store_rows d) of
        None \<Rightarrow> (Inl (HTTPException 404 ''Store not found''), [])
      | Some store \<Rightarrow>
          if status store \<noteq> ''completed'' then
            (Inl (HTTPException 400 ''Store must be completed before publishing''), [])
          else
            (Inr (JObj [(''message'', JStr ''Publishing started''),
                        (''store_id'', JNum (store_id store))]),
             [store_id store]))"

text \<open>
  A publish request from the route to the end of its background tasks, which run in
  the order they were added: the response, the database, and every post made to the
  platform.
\<close>

fun run_background_tasks :: "shopify \<Rightarrow> db \<Rightarrow> int list \<Rightarrow> db \<times> calls" where
  "run_background_tasks shop d [] = (d, [])"
| "run_background_tasks shop d (task # tasks) =
     (let (d1, made) = publish_store_background shop d task;
          (d2, later) = run_background_tasks shop d1 tasks
      in (d2, made @ later))"

definition publish_request ::
    "shopify \<Rightarrow> db \<Rightarrow> int \<Rightarrow> User \<Rightarrow> (error + json) \<times> db \<times> calls" where
  "publish_request shop d sid current_user =
     (let (response, tasks) = publish_store d sid current_user;
          (d', made) = run_background_tasks shop d tasks
      in (response, d', made))"

section \<open>A concrete image service\<close>

text \<open>
  A deterministic service used to run the model: it serves the image \<open>A\<close> at url
  \<open>src\<close>, names a job after its pass and its input image, completes quality and style
  jobs at the third poll with an output that downloads as the job's name, and never
  completes a background-removal job.
\<close>

definition pass_tag :: "payload \<Rightarrow> string" where
  "pass_tag pl = (case map_of pl ''guidance_scale'' of
       Some (PInt n) \<Rightarrow> (if n = 7 then ''q'' else if n = 8 then ''b'' else ''s'')
     | _ \<Rightarrow> ''x'')"

definition init_image :: "payload \<Rightarrow> string" where
  "init_image pl = (case map_of pl ''init_image_b64'' of Some (PStr s) \<Rightarrow> s | _ \<Rightarrow> [])"

definition demo_env :: leonardo where
  "demo_env =
     \<lparr>http_get = (\<lambda>url. if url = ''src'' then Inr ''A''
                       else if take 4 url = ''out/'' then Inr (drop 4 url)
                       else Inl (ExternalError ''404'')),
      post_generations = (\<lambda>pl. Inr (pass_tag pl @ ''('' @ init_image pl @ '')'')),
      get_generation = (\<lambda>gid n. if take 1 gid = ''b'' then Generation ''PENDING'' []
                                 else if n < 2 then Generation ''PENDING'' []
                                 else Generation ''COMPLETE'' [''out/'' @ gid]),
      b64encode = (\<lambda>b. b),
      md5_hexdigest = (\<lambda>b. b),
      AWS_S3_BUCKET = ''bucket'',
      elapsed = (\<lambda>url. 0)\<rparr>"

section \<open>Concrete text services\<close>



definition text_prose :: textgen where
  "text_prose =
     \<lparr>chat_completion = (\<lambda>g p. Inr (Some (if g = AboutPage then ''We make lamps.'' else ''Sure! Here it is''))),
      json_loads = (\<lambda>s. None)\<rparr>"

section \<open>A concrete store\<close>

text \<open>
  A scraped product, a store that is being generated, a generated content, the owner of
  the store, a database holding them, a short generated document, the same database
  after a completed generation, a platform that accepts every post, and the services
  of the orchestrator: the scraper knows one url.
\<close>

definition demo_scraped :: ScrapedProduct where
  "demo_scraped =
     \<lparr>sp_title = ''Trail Lamp'', sp_description = ''A bright lamp'', sp_price = Some ''$19'',
      sp_images = [''src'', ''gone''],
      sp_features = [''USB-C'', ''Waterproof'', ''Light'', ''Dimmable'', ''Red mode'', ''Strap''],
      sp_specifications = [(''Weight'', ''80 g'')], sp_category = ''Outdoor'',
      sp_brand = None, sp_rating = None, sp_reviews_count = None\<rparr>"

definition demo_store :: Store where
  "demo_store =
     \<lparr>store_id = 1, user_id = 7, store_name = ''Lamp Shop'', shopify_theme_id = None,
      shopify_store_url = None, source_product_url = ''https://shop.example/lamp'',
      source_platform = ''unknown'', ai_generated_content = JObj [], enhanced_images = [],
      theme_style = ''luxury'', brand_colors = Some [], store_pages = JObj [],
      status = ''generating'', generation_progress = 0, error_message = None,
      store_seo_title = None, store_seo_description = None, store_seo_keywords = [],
      created_at = 1700000000, updated_at = None, published_at = None\<rparr>"


definition demo_user :: User where
  "demo_user =
     \<lparr>uid = 7, email = ''owner@example.com'', shopify_shop_domain = ''lamps.myshopify.com'',
      shopify_access_token = ''token'', subscription_plan = ''free'', stores_built = 1,
      monthly_limit = 10, company = None\<rparr>"

definition demo_db :: db where
  "demo_db = \<lparr>store_rows = [demo_store], user_rows = [demo_user], commits = []\<rparr>"

definition demo_document :: json where
  "demo_document =
     JObj [(''product'', JObj [(''title'', JStr ''Trail Lamp Pro''),
                               (''description'', JStr ''Light up the trail.'')]),
           (''pages'',
            JObj [(''about'', JObj [(''title'', JStr ''About Us''),
                                    (''content'', JStr ''We make lamps.'')]),
                  (''faq'', JObj [(''title'', JStr ''Frequently Asked Questions''),
                                  (''items'', JArr [JObj [(''question'', JStr ''Is it bright?''),
                                                          (''answer'', JStr ''Yes.'')]])])])]"

definition completed_db :: db where
  "completed_db =
     \<lparr>store_rows = [demo_store\<lparr>status := ''completed'', generation_progress := 100,
                                ai_generated_content := demo_document\<rparr>],
      user_rows = [demo_user], commits = []\<rparr>"

definition demo_shop :: shopify where
  "demo_shop =
     \<lparr>shopify_post = (\<lambda>url headers payload.
         Inr (JObj [(''product'', JObj [(''id'', JNum 42)]), (''page'', JObj [(''id'', JNum 43)])])),
      py_str = (\<lambda>j. ''?'')\<rparr>"

definition demo_services :: services where
  "demo_services =
     \<lparr>scraper = (\<lambda>url. if url = ''https://shop.example/lamp'' then Inr demo_scraped
                      else Inl (ExternalError ''product page not found'')),
      content_generator = text_prose,
      image_enhancer = demo_env,
      isoformat = (\<lambda>t. ''2023-11-14T22:13:20''),
      render = (\<lambda>e. ''error'')\<rparr>"

section \<open>Properties of the image enhancement\<close>

lemma poll_loop_pending_step:
  "attempt < max_attempts \<Longrightarrow> pending (get attempt) \<Longrightarrow>
   poll_loop get attempt slept = poll_loop get (attempt + 1) (slept + 10)"
  by (subst poll_loop.simps) (simp add: pending_def split: poll_reply.splits)

lemma poll_loop_decisive:
  "attempt < max_attempts \<Longrightarrow> \<not> pending (get attempt) \<Longrightarrow>
   poll_loop get attempt slept = (poll_outcome (get attempt), attempt, slept)"
  by (subst poll_loop.simps) (auto simp: pending_def poll_outcome_def split: poll_reply.splits list.splits)

lemma poll_loop_exhausted:
  "\<not> attempt < max_attempts \<Longrightarrow>
   poll_loop get attempt slept = (Inl (Exception ''Generation timeout''), attempt, slept)"
  by (subst poll_loop.simps) simp

lemma poll_loop_skip:
  "k \<le> max_attempts \<Longrightarrow> \<forall>j<k. pending (get j) \<Longrightarrow> a \<le> k \<Longrightarrow>
   poll_loop get a (10 * a) = poll_loop get k (10 * k)"
proof (induction "k - a" arbitrary: a)
  case 0
  then show ?case by simp
next
  case (Suc d)
  then have lt: "a < k" and d: "d = k - (a + 1)" by linarith+
  from lt Suc.prems have "a < max_attempts" "pending (get a)" by auto
  then have "poll_loop get a (10 * a) = poll_loop get (a + 1) (10 * (a + 1))"
    by (simp add: poll_loop_pending_step add.commute)
  also have "\<dots> = poll_loop get k (10 * k)"
    using Suc.hyps(1)[OF d Suc.prems(1,2)] lt by simp
  finally show ?case .
qed

lemma decisive_index_exists:
  "\<exists>k\<le>n::nat. (\<forall>j<k. pending (get j)) \<and> (k = n \<or> \<not> pending (get k))"
proof (cases "\<forall>j<n. pending (get j)")
  case True
  then show ?thesis by (intro exI[of _ n]) simp
next
  case False
  then obtain j where j: "j < n" "\<not> pending (get j)" by auto
  define k where "k = (LEAST i. \<not> pending (get i))"
  have nk: "\<not> pending (get k)" unfolding k_def using j(2) by (rule LeastI)
  have lek: "k \<le> j" unfolding k_def using j(2) by (rule Least_le)
  have "\<forall>i<k. pending (get i)" unfolding k_def using not_less_Least by blast
  with nk lek j(1) show ?thesis by (intro exI[of _ k]) auto
qed

text \<open>
  Claim C5. The per-job polling loop terminates on every execution: \<open>poll_loop\<close> is a
  total function, and for every service and job there is an index \<open>k \<le> 30\<close> (the first
  reply that is not pending, or 30 when all of the first 30 replies are pending) such
  that the loop has slept \<open>10 * k\<close> seconds, ten between consecutive polls, has polled
  at most 30 times, and ends as the reply \<open>k\<close> dictates: with the first output url on
  \<^verbatim>\<open>COMPLETE\<close> with generated images, with a failure on \<^verbatim>\<open>FAILED\<close>, on \<^verbatim>\<open>COMPLETE\<close>
  without images or on a raising request, and with the timeout failure when \<open>k = 30\<close>.
\<close>

theorem poll_generation_completion_bounded:
  "\<exists>k\<le>30.
     (\<forall>j<k. pending (get_generation env gid j)) \<and>
     (k = 30 \<or> \<not> pending (get_generation env gid k)) \<and>
     poll_generation_completion env gid =
       (if k = 30 then Inl (Exception ''Generation timeout'')
        else poll_outcome (get_generation env gid k), k, 10 * k)"
proof -
  let ?get = "get_generation env gid"
  obtain k where k: "k \<le> 30" "\<forall>j<k. pending (?get j)" "k = 30 \<or> \<not> pending (?get k)"
    using decisive_index_exists[of 30 ?get] by blast
  have skip: "poll_loop ?get 0 (10 * 0) = poll_loop ?get k (10 * k)"
    using k(1,2) by (intro poll_loop_skip) (simp_all add: max_attempts_def)
  have "poll_loop ?get k (10 * k) =
          (if k = 30 then Inl (Exception ''Generation timeout'') else poll_outcome (?get k), k, 10 * k)"
  proof (cases "k = 30")
    case True
    then show ?thesis by (simp add: poll_loop_exhausted max_attempts_def)
  next
    case False
    with k have "k < max_attempts" "\<not> pending (?get k)" by (auto simp: max_attempts_def)
    then show ?thesis using False by (simp add: poll_loop_decisive)
  qed
  with skip have "poll_generation_completion env gid =
          (if k = 30 then Inl (Exception ''Generation timeout'') else poll_outcome (?get k), k, 10 * k)"
    by (simp add: poll_generation_completion_def)
  with k show ?thesis by blast
qed

lemma submit_poll_download_absorbs:
  "pass_fails env pl \<Longrightarrow> submit_poll_download env pl image_data = image_data"
  by (auto simp: pass_fails_def submit_poll_download_def split: sum.splits)

lemma pending_demo_q: "pending (get_generation demo_env ''q(A)'' j) \<longleftrightarrow> j < 2"
  by (simp add: demo_env_def pending_def)

lemma pending_demo_b: "pending (get_generation demo_env ''b(q(A))'' j)"
  by (simp add: demo_env_def pending_def)

text \<open>
  The theorem at the concrete service: a quality job completes at its third poll after
  20 seconds, a background-removal job runs into the timeout after 30 polls.
\<close>

theorem poll_generation_completion_bounded_witness:
  "poll_generation_completion demo_env ''q(A)'' = (Inr ''out/q(A)'', 2, 20) \<and>
   poll_generation_completion demo_env ''b(q(A))'' = (Inl (Exception ''Generation timeout''), 30, 300)"
proof
  obtain k where k: "k \<le> 30" "\<forall>j<k. pending (get_generation demo_env ''q(A)'' j)"
      "k = 30 \<or> \<not> pending (get_generation demo_env ''q(A)'' k)"
      and res: "poll_generation_completion demo_env ''q(A)'' =
         (if k = 30 then Inl (Exception ''Generation timeout'')
          else poll_outcome (get_generation demo_env ''q(A)'' k), k, 10 * k)"
    using poll_generation_completion_bounded [of demo_env "''q(A)''"] by blast
  have "k \<le> 2"
  proof (rule ccontr)
    assume "\<not> k \<le> 2"
    then have "2 < k" by simp
    with k(2) have "pending (get_generation demo_env ''q(A)'' 2)" by blast
    then show False by (simp add: pending_demo_q)
  qed
  moreover from this k(3) have "2 \<le> k" by (simp add: pending_demo_q)
  ultimately have "k = 2" by simp
  moreover have "poll_outcome (get_generation demo_env ''q(A)'' 2) = Inr ''out/q(A)''"
    by (simp add: demo_env_def poll_outcome_def)
  ultimately show "poll_generation_completion demo_env ''q(A)'' = (Inr ''out/q(A)'', 2, 20)"
    using res by simp
next
  obtain k where k: "k \<le> 30" "k = 30 \<or> \<not> pending (get_generation demo_env ''b(q(A))'' k)"
      and res: "poll_generation_completion demo_env ''b(q(A))'' =
         (if k = 30 then Inl (Exception ''Generation timeout'')
          else poll_outcome (get_generation demo_env ''b(q(A))'' k), k, 10 * k)"
    using poll_generation_completion_bounded [of demo_env "''b(q(A))''"] by blast
  from k(2) have "k = 30" by (simp add: pending_demo_b)
  with res show "poll_generation_completion demo_env ''b(q(A))'' =
      (Inl (Exception ''Generation timeout''), 30, 300)" by simp
qed

text \<open>
  Claim C2 as stated fails. In the run below the quality pass succeeds and the
  background-removal pass times out; the chain is not aborted and the result is not
  tagged \<^verbatim>\<open>fallback_original\<close>: the style pass still runs, on the quality-enhanced image,
  and the result is tagged \<^verbatim>\<open>full_enhancement\<close>.
\<close>

theorem enhance_single_image_pass_failure_counterexample:
  "fst (poll_generation_completion demo_env ''b(q(A))'') = Inl (Exception ''Generation timeout'') \<and>
   pass_fails demo_env (background_payload (b64encode demo_env ''q(A)'')) \<and>
   enhance_single_image demo_env ''src'' ''modern'' True True =
     \<lparr>original_url = ''src'',
      enhanced_url = ''https://bucket.s3.amazonaws.com/enhanced/s(q(A)).jpg'',
      style = ''modern'', processing_time = 0,
      enhancement_type = ''full_enhancement''\<rparr>"
  by code_simp

text \<open>
  Claim C2, amended. A failing pass (a raising submit, poll exhaustion or job failure,
  a raising download) is absorbed inside the pass, which returns its input image
  unchanged; the remaining passes still run on it, so the output of the passes that
  succeeded is kept. The result is tagged \<^verbatim>\<open>full_enhancement\<close> exactly when the
  download of the original image succeeds, whether or not the passes succeeded, and its
  url is the upload url of the chain's output. It is tagged \<^verbatim>\<open>fallback_original\<close>
  exactly when that first download raises, and its enhanced url is then the original
  url.
\<close>

theorem enhance_single_image_tagging:
  "(let r = enhance_single_image env image_url sty enhance_quality remove_bg in
      (enhancement_type r = ''fallback_original'' \<longleftrightarrow> isl (download_image env image_url)) \<and>
      (enhancement_type r = ''full_enhancement'' \<longleftrightarrow> \<not> isl (download_image env image_url)) \<and>
      (isl (download_image env image_url) \<longrightarrow> enhanced_url r = image_url) \<and>
      original_url r = image_url \<and> style r = sty) \<and>
   (\<forall>original_image. download_image env image_url = Inr original_image \<longrightarrow>
      enhanced_url (enhance_single_image env image_url sty enhance_quality remove_bg) =
        upload_enhanced_image env
          (apply_style_enhancement env
             ((if remove_bg then remove_background env else (\<lambda>b. b))
                ((if enhance_quality then enhance_image_quality env else (\<lambda>b. b)) original_image))
             sty)) \<and>
   (\<forall>image_data.
      (pass_fails env (quality_payload (b64encode env image_data)) \<longrightarrow>
         enhance_image_quality env image_data = image_data) \<and>
      (pass_fails env (background_payload (b64encode env image_data)) \<longrightarrow>
         remove_background env image_data = image_data) \<and>
      (pass_fails env (style_payload (style_prompt_for sty) (b64encode env image_data)) \<longrightarrow>
         apply_style_enhancement env image_data sty = image_data))"
proof (intro conjI allI impI)
  show "let r = enhance_single_image env image_url sty enhance_quality remove_bg in
      (enhancement_type r = ''fallback_original'' \<longleftrightarrow> isl (download_image env image_url)) \<and>
      (enhancement_type r = ''full_enhancement'' \<longleftrightarrow> \<not> isl (download_image env image_url)) \<and>
      (isl (download_image env image_url) \<longrightarrow> enhanced_url r = image_url) \<and>
      original_url r = image_url \<and> style r = sty"
    by (cases "download_image env image_url") (simp_all add: enhance_single_image_def Let_def)
next
  fix original_image
  assume "download_image env image_url = Inr original_image"
  then show "enhanced_url (enhance_single_image env image_url sty enhance_quality remove_bg) =
        upload_enhanced_image env
          (apply_style_enhancement env
             ((if remove_bg then remove_background env else (\<lambda>b. b))
                ((if enhance_quality then enhance_image_quality env else (\<lambda>b. b)) original_image))
             sty)"
    by (simp add: enhance_single_image_def Let_def)
next
  fix image_data
  assume "pass_fails env (quality_payload (b64encode env image_data))"
  then show "enhance_image_quality env image_data = image_data"
    by (simp add: enhance_image_quality_def submit_poll_download_absorbs)
next
  fix image_data
  assume "pass_fails env (background_payload (b64encode env image_data))"
  then show "remove_background env image_data = image_data"
    by (simp add: remove_background_def submit_poll_download_absorbs)
next
  fix image_data
  assume "pass_fails env (style_payload (style_prompt_for sty) (b64encode env image_data))"
  then show "apply_style_enhancement env image_data sty = image_data"
    by (simp add: apply_style_enhancement_def submit_poll_download_absorbs)
qed

theorem enhance_single_image_tagging_witness:
  "download_image demo_env ''src'' = Inr ''A'' \<and>
   download_image demo_env ''gone'' = Inl (ExternalError ''404'') \<and>
   pass_fails demo_env (background_payload (b64encode demo_env ''q(A)'')) \<and>
   remove_background demo_env ''q(A)'' = ''q(A)'' \<and>
   enhancement_type (enhance_single_image demo_env ''src'' ''modern'' True True) = ''full_enhancement'' \<and>
   enhanced_url (enhance_single_image demo_env ''src'' ''modern'' True True) =
     upload_enhanced_image demo_env
       (apply_style_enhancement demo_env
          (remove_background demo_env (enhance_image_quality demo_env ''A'')) ''modern'') \<and>
   enhancement_type (enhance_single_image demo_env ''gone'' ''modern'' True True) = ''fallback_original'' \<and>
   enhanced_url (enhance_single_image demo_env ''gone'' ''modern'' True True) = ''gone''"
proof -
  have src: "download_image demo_env ''src'' = Inr ''A''" by code_simp
  have gone: "download_image demo_env ''gone'' = Inl (ExternalError ''404'')" by code_simp
  have fails: "pass_fails demo_env (background_payload (b64encode demo_env ''q(A)''))" by code_simp
  note t1 = enhance_single_image_tagging [of demo_env "''src''" "''modern''" True True]
  note t2 = enhance_single_image_tagging [of demo_env "''gone''" "''modern''" True True]
  from t1 fails have "remove_background demo_env ''q(A)'' = ''q(A)''" by blast
  moreover from t1 src have "enhancement_type (enhance_single_image demo_env ''src'' ''modern'' True True) = ''full_enhancement''"
    by (simp add: Let_def)
  moreover from t1 src have "enhanced_url (enhance_single_image demo_env ''src'' ''modern'' True True) =
     upload_enhanced_image demo_env
       (apply_style_enhancement demo_env
          (remove_background demo_env (enhance_image_quality demo_env ''A'')) ''modern'')"
    by simp
  moreover from t2 gone have "enhancement_type (enhance_single_image demo_env ''gone'' ''modern'' True True) = ''fallback_original''"
    by (simp add: Let_def)
  moreover from t2 gone have "enhanced_url (enhance_single_image demo_env ''gone'' ''modern'' True True) = ''gone''"
    by (simp add: Let_def)
  ultimately show ?thesis using src gone fails by blast
qed

lemma map_filter_Inr: "List.map_filter (\<lambda>r. case r of Inr x \<Rightarrow> Some x | Inl e \<Rightarrow> None) (map (\<lambda>u. Inr (f u)) xs) = map f xs"
  by (induction xs) (simp_all add: List.map_filter_simps)

lemma enhance_product_images_eq:
  "enhance_product_images env image_urls sty enhance_quality =
   map (\<lambda>url. enhance_single_image env url sty enhance_quality False) (take 5 image_urls)"
  by (simp add: enhance_product_images_def gather_return_exceptions_def map_filter_Inr)

text \<open>
  Claim C3. For a list of 0 to 5 image urls, \<open>enhance_product_images\<close> returns exactly
  one result per url, in input order, and the result at position \<open>i\<close> is the
  single-image run on the \<open>i\<close>-th url alone: no other url, and no failure on another
  url, enters it.
\<close>

theorem enhance_product_images_one_per_input:
  "length image_urls \<le> 5 \<Longrightarrow>
   length (enhance_product_images env image_urls sty enhance_quality) = length image_urls \<and>
   (\<forall>i<length image_urls.
      enhance_product_images env image_urls sty enhance_quality ! i =
        enhance_single_image env (image_urls ! i) sty enhance_quality False)"
  by (simp add: enhance_product_images_eq)

theorem enhance_product_images_one_per_input_witness:
  "length [''src'', ''gone''] \<le> (5::nat) \<and>
   length (enhance_product_images demo_env [''src'', ''gone''] ''modern'' True) = 2 \<and>
   enhance_product_images demo_env [''src'', ''gone''] ''modern'' True ! 0 =
     enhance_single_image demo_env ''src'' ''modern'' True False \<and>
   enhance_product_images demo_env [''src'', ''gone''] ''modern'' True ! 1 =
     enhance_single_image demo_env ''gone'' ''modern'' True False"
  using enhance_product_images_one_per_input [of "[''src'', ''gone'']" demo_env "''modern''" True]
  by simp

text \<open>
  Claim C10. For a list of more than 5 image urls, \<open>enhance_product_images\<close> returns
  exactly 5 results, the single-image runs on the first 5 urls in input order; the
  function returns a list in every case, so no error is raised for the excess urls.
\<close>

theorem enhance_product_images_truncates:
  "5 < length image_urls \<Longrightarrow>
   length (enhance_product_images env image_urls sty enhance_quality) = 5 \<and>
   enhance_product_images env image_urls sty enhance_quality =
     map (\<lambda>url. enhance_single_image env url sty enhance_quality False) (take 5 image_urls)"
  by (simp add: enhance_product_images_eq)

theorem enhance_product_images_truncates_witness:
  "5 < length [''a'', ''b'', ''c'', ''d'', ''e'', ''f'', ''g''] \<and>
   length (enhance_product_images demo_env [''a'', ''b'', ''c'', ''d'', ''e'', ''f'', ''g''] ''modern'' True) = 5 \<and>
   map original_url (enhance_product_images demo_env [''a'', ''b'', ''c'', ''d'', ''e'', ''f'', ''g''] ''modern'' True) =
     [''a'', ''b'', ''c'', ''d'', ''e'']"
  using enhance_product_images_truncates [of "[''a'', ''b'', ''c'', ''d'', ''e'', ''f'', ''g'']" demo_env "''modern''" True]
  by (simp add: enhance_single_image_def download_image_def demo_env_def)

section \<open>Properties of the content generation\<close>











section \<open>Properties of the assembler\<close>












text \<open>
  The image list that the orchestrator passes to the assembler is empty only when the
  product has no image, so on the documents of a generation run the two images agree.
\<close>

lemma orchestrator_images_cover_product:
  "(if sp_images p \<noteq> [] then enhance_product_images env (sp_images p) sty True else []) \<noteq> []
   \<or> sp_images p = []"
  by (cases "sp_images p") (simp_all add: enhance_product_images_eq)

section \<open>Properties of the orchestrator\<close>

lemma query_store_id: "query_store d sid = Some s \<Longrightarrow> store_id s = sid"
  by (auto simp: query_store_def find_Some_iff)

lemma find_replace:
  "find (\<lambda>s. store_id s = sid) rows = Some s0 \<Longrightarrow> store_id store = sid \<Longrightarrow>
   find (\<lambda>s. store_id s = sid) (map (\<lambda>s. if store_id s = sid then store else s) rows)
     = Some store"
  by (induction rows) (auto split: if_splits)

lemma query_store_commit:
  "query_store d sid = Some s0 \<Longrightarrow> store_id store = sid \<Longrightarrow>
   query_store (commit d store) sid = Some store"
  by (simp add: query_store_def commit_def find_replace)

lemma commits_commit: "commits (commit d store) = commits d @ [store]"
  by (simp add: commit_def)

lemma steps_not_found:
  "query_store d sid = None \<Longrightarrow>
   generation_steps env d sid url = (Inl (Exception (''Store '' @ str_int sid @ '' not found'')), d)"
  by (simp add: generation_steps_def)

lemma steps_scrape_fails:
  "query_store d sid = Some s0 \<Longrightarrow> scraper env url = Inl e \<Longrightarrow>
   generation_steps env d sid url =
     (Inl e, commit d (s0\<lparr>generation_progress := 10, error_message := Some ''Scraping product data...''\<rparr>))"
  by (simp add: generation_steps_def update_store_progress_def Let_def)


lemma steps_content_fails:
  "query_store d sid = Some s0 \<Longrightarrow> scraper env url = Inr sp \<Longrightarrow>
   generate_complete_content (content_generator env)
     \<lparr>title = sp_title sp, description = sp_description sp, features = sp_features sp,
      specifications = sp_specifications sp, category = sp_category sp,
      price_range = sp_price sp\<rparr> = Inl e \<Longrightarrow>
   generation_steps env d sid url =
     (Inl e,
      commit (commit d (s0\<lparr>generation_progress := 10, error_message := Some ''Scraping product data...''\<rparr>))
        (s0\<lparr>generation_progress := 25, error_message := Some ''Generating AI content...''\<rparr>))"
  by (simp add: generation_steps_def update_store_progress_def Let_def)

lemma steps_success:
  assumes "query_store d sid = Some s0" "scraper env url = Inr sp"
    "generate_complete_content (content_generator env)
       \<lparr>title = sp_title sp, description = sp_description sp, features = sp_features sp,
        specifications = sp_specifications sp, category = sp_category sp,
        price_range = sp_price sp\<rparr> = Inr gc"
  defines "imgs \<equiv> (if sp_images sp \<noteq> [] then
             enhance_product_images (image_enhancer env) (sp_images sp) (theme_style s0) True
           else [])"
  defines "doc \<equiv> build_store_structure (isoformat env)
             (s0\<lparr>generation_progress := 75, error_message := Some ''Building store structure...''\<rparr>)
             sp gc imgs"
  shows "generation_steps env d sid url =
       (Inr (JObj [(''store_id'', JNum sid), (''status'', JStr ''completed''),
                   (''store_data'', doc), (''enhanced_images'', JNum (int (length imgs))),
                   (''message'', JStr ''Store generated successfully'')]),
        commit (commit (commit (commit (commit (commit d
          (s0\<lparr>generation_progress := 10, error_message := Some ''Scraping product data...''\<rparr>))
          (s0\<lparr>generation_progress := 25, error_message := Some ''Generating AI content...''\<rparr>))
          (s0\<lparr>generation_progress := 50, error_message := Some ''Enhancing product images...''\<rparr>))
          (s0\<lparr>generation_progress := 75, error_message := Some ''Building store structure...''\<rparr>))
          (s0\<lparr>generation_progress := 90, error_message := Some ''Finalizing store...''\<rparr>))
          (s0\<lparr>ai_generated_content := doc, enhanced_images := imgs,
              store_seo_title := Some (seo_title gc),
              store_seo_description := Some (seo_description gc),
              store_seo_keywords := content_keywords gc,
              status := ''completed'', generation_progress := 100, error_message := None\<rparr>))"
  using assms(1-3) unfolding imgs_def doc_def
  by (simp add: generation_steps_def update_store_progress_def Let_def)

lemma progress_trace_append:
  "commits d' = commits d @ xs \<Longrightarrow> progress_trace d d' = map generation_progress xs"
  by (simp add: progress_trace_def)

text \<open>
  Claim C6. If the scraper raises for the product url of an existing store, the run
  raises the same exception, and the store ends as it was before the run except that
  its status is \<^verbatim>\<open>error\<close>, its message is the text of the exception and its progress
  is 10.
\<close>

theorem scrape_failure_is_fatal:
  "query_store d sid = Some store0 \<Longrightarrow> scraper env product_url = Inl e \<Longrightarrow>
   fst (generate_complete_store env d sid product_url) = Inl e \<and>
   query_store (snd (generate_complete_store env d sid product_url)) sid =
     Some (store0\<lparr>generation_progress := 10, error_message := Some (str_of env e),
                  status := ''error''\<rparr>)"
proof -
  assume q: "query_store d sid = Some store0" and f: "scraper env product_url = Inl e"
  let ?s10 = "store0\<lparr>generation_progress := 10, error_message := Some ''Scraping product data...''\<rparr>"
  have id: "store_id store0 = sid" using q by (rule query_store_id)
  have steps: "generation_steps env d sid product_url = (Inl e, commit d ?s10)"
    using q f by (rule steps_scrape_fails)
  have q10: "query_store (commit d ?s10) sid = Some ?s10"
    using q id by (simp add: query_store_commit)
  have run: "generate_complete_store env d sid product_url =
      (Inl e, commit (commit d ?s10) (?s10\<lparr>status := ''error'', error_message := Some (str_of env e)\<rparr>))"
    by (simp add: generate_complete_store_def steps q10)
  have "query_store (commit (commit d ?s10) (?s10\<lparr>status := ''error'', error_message := Some (str_of env e)\<rparr>)) sid
      = Some (?s10\<lparr>status := ''error'', error_message := Some (str_of env e)\<rparr>)"
    using q10 id by (simp add: query_store_commit)
  with run show ?thesis by simp
qed


lemma run_after_failed_steps:
  "generation_steps env d sid url = (Inl e, d1) \<Longrightarrow> query_store d1 sid = Some s \<Longrightarrow>
   generate_complete_store env d sid url =
     (Inl e, commit d1 (s\<lparr>status := ''error'', error_message := Some (str_of env e)\<rparr>))"
  by (simp add: generate_complete_store_def)

lemma run_after_steps_ok:
  "generation_steps env d sid url = (Inr r, d1) \<Longrightarrow>
   generate_complete_store env d sid url = (Inr r, d1)"
  by (simp add: generate_complete_store_def)

text \<open>
  Claim C4. The progress values committed during one run are non-decreasing. When the
  run succeeds they are 10, 25, 50, 75, 90, 100 and the store ends completed at 100.
  When the run fails on an existing store, they are the checkpoints reached, the last
  of them repeated by the commit that sets the status to \<^verbatim>\<open>error\<close>: the progress stays
  at the last checkpoint. When the store does not exist, nothing is written.
\<close>

theorem generation_progress_monotone:
  "generate_complete_store env d sid product_url = (res, d') \<Longrightarrow>
   sorted (progress_trace d d') \<and>
   (\<forall>result. res = Inr result \<longrightarrow>
      progress_trace d d' = checkpoints @ [100] \<and>
      (\<exists>s. query_store d' sid = Some s \<and> status s = ''completed'' \<and>
           generation_progress s = 100)) \<and>
   (\<forall>e. res = Inl e \<longrightarrow>
      (case query_store d sid of
         None \<Rightarrow> d' = d
       | Some store0 \<Rightarrow>
           (\<exists>n s. 0 < n \<and> n \<le> length checkpoints \<and>
              progress_trace d d' = take n checkpoints @ [last (take n checkpoints)] \<and>
              query_store d' sid = Some s \<and> status s = ''error'' \<and>
              error_message s = Some (str_of env e) \<and>
              generation_progress s = last (take n checkpoints))))"
proof -
  assume run: "generate_complete_store env d sid product_url = (res, d')"
  show ?thesis
  proof (cases "query_store d sid")
    case None
    then have "generate_complete_store env d sid product_url =
        (Inl (Exception (''Store '' @ str_int sid @ '' not found'')), d)"
      by (simp add: generate_complete_store_def steps_not_found)
    with run None show ?thesis by (auto simp: progress_trace_def)
  next
    case (Some s0)
    have id: "store_id s0 = sid" using Some by (rule query_store_id)
    let ?s10 = "s0\<lparr>generation_progress := 10, error_message := Some ''Scraping product data...''\<rparr>"
    let ?s25 = "s0\<lparr>generation_progress := 25, error_message := Some ''Generating AI content...''\<rparr>"
    have q10: "query_store (commit d ?s10) sid = Some ?s10"
      using Some id by (simp add: query_store_commit)
    have q25: "query_store (commit (commit d ?s10) ?s25) sid = Some ?s25"
      using q10 id by (simp add: query_store_commit)
    show ?thesis
    proof (cases "scraper env product_url")
      case (Inl e)
      let ?err = "?s10\<lparr>status := ''error'', error_message := Some (str_of env e)\<rparr>"
      have "generate_complete_store env d sid product_url = (Inl e, commit (commit d ?s10) ?err)"
        using steps_scrape_fails[OF Some Inl] q10 by (rule run_after_failed_steps)
      with run have res: "res = Inl e" and d': "d' = commit (commit d ?s10) ?err" by simp_all
      have tr: "progress_trace d d' = [10, 10]"
        unfolding d' by (simp add: progress_trace_def commits_commit)
      have q: "query_store d' sid = Some ?err"
        unfolding d' using q10 id by (simp add: query_store_commit)
      have "progress_trace d d' = take 1 checkpoints @ [last (take 1 checkpoints)] \<and>
            query_store d' sid = Some ?err \<and> status ?err = ''error'' \<and>
            error_message ?err = Some (str_of env e) \<and>
            generation_progress ?err = last (take 1 checkpoints)"
        using tr q by (simp add: checkpoints_def)
      then have "\<exists>n s. 0 < n \<and> n \<le> length checkpoints \<and>
              progress_trace d d' = take n checkpoints @ [last (take n checkpoints)] \<and>
              query_store d' sid = Some s \<and> status s = ''error'' \<and>
              error_message s = Some (str_of env e) \<and>
              generation_progress s = last (take n checkpoints)"
        by (intro exI[of _ 1] exI[of _ ?err]) (simp add: checkpoints_def)
      with res tr Some show ?thesis by simp
    next
      case (Inr sp)
      let ?info = "\<lparr>title = sp_title sp, description = sp_description sp, features = sp_features sp,
        specifications = sp_specifications sp, category = sp_category sp,
        price_range = sp_price sp\<rparr>"
      show ?thesis
      proof (cases "generate_complete_content (content_generator env) ?info")
        case (Inl e)
        let ?err = "?s25\<lparr>status := ''error'', error_message := Some (str_of env e)\<rparr>"
        have "generate_complete_store env d sid product_url =
            (Inl e, commit (commit (commit d ?s10) ?s25) ?err)"
          using steps_content_fails[OF Some Inr Inl] q25 by (rule run_after_failed_steps)
        with run have res: "res = Inl e" and d': "d' = commit (commit (commit d ?s10) ?s25) ?err"
          by simp_all
        have tr: "progress_trace d d' = [10, 25, 25]"
          unfolding d' by (simp add: progress_trace_def commits_commit)
        have q: "query_store d' sid = Some ?err"
          unfolding d' using q25 id by (simp add: query_store_commit)
        have "\<exists>n s. 0 < n \<and> n \<le> length checkpoints \<and>
              progress_trace d d' = take n checkpoints @ [last (take n checkpoints)] \<and>
              query_store d' sid = Some s \<and> status s = ''error'' \<and>
              error_message s = Some (str_of env e) \<and>
              generation_progress s = last (take n checkpoints)"
          using tr q by (intro exI[of _ 2] exI[of _ ?err]) (simp add: checkpoints_def)
        with res tr Some show ?thesis by simp
      next
        case (Inr gc)
        note ok = steps_success[OF Some \<open>scraper env product_url = Inr sp\<close> Inr]
        from run run_after_steps_ok[OF ok]
        have res: "\<exists>r. res = Inr r" and d': "d' = snd (generation_steps env d sid product_url)"
          by (auto simp: ok)
        have tr: "progress_trace d d' = [10, 25, 50, 75, 90, 100]"
          unfolding d' ok by (simp add: progress_trace_def commits_commit)
        have q90: "query_store (commit (commit (commit (commit (commit d ?s10) ?s25)
            (s0\<lparr>generation_progress := 50, error_message := Some ''Enhancing product images...''\<rparr>))
            (s0\<lparr>generation_progress := 75, error_message := Some ''Building store structure...''\<rparr>))
            (s0\<lparr>generation_progress := 90, error_message := Some ''Finalizing store...''\<rparr>)) sid
          = Some (s0\<lparr>generation_progress := 90, error_message := Some ''Finalizing store...''\<rparr>)"
          using q25 id by (simp add: query_store_commit)
        have "\<exists>s. query_store d' sid = Some s \<and> status s = ''completed'' \<and>
                generation_progress s = 100"
          unfolding d' ok snd_conv using q90 id by (simp add: query_store_commit)
        with res tr show ?thesis by (auto simp: checkpoints_def)
      qed
    qed
  qed
qed


subsection \<open>Runs on the concrete store\<close>

lemma demo_query: "query_store demo_db 1 = Some demo_store"
  by (simp add: query_store_def demo_db_def demo_store_def)

lemma demo_scrape_fails:
  "scraper demo_services ''https://shop.example/gone'' = Inl (ExternalError ''product page not found'')"
  by (simp add: demo_services_def)

lemma demo_scrape_ok: "scraper demo_services ''https://shop.example/lamp'' = Inr demo_scraped"
  by (simp add: demo_services_def)

lemma demo_content_ok:
  "\<not> isl (generate_complete_content (content_generator demo_services)
       \<lparr>title = sp_title demo_scraped, description = sp_description demo_scraped,
        features = sp_features demo_scraped, specifications = sp_specifications demo_scraped,
        category = sp_category demo_scraped, price_range = sp_price demo_scraped\<rparr>)"
  by code_simp

text \<open>The theorem on the concrete store, for a url the scraper does not know.\<close>

theorem scrape_failure_is_fatal_witness:
  "query_store demo_db 1 = Some demo_store \<and>
   scraper demo_services ''https://shop.example/gone'' = Inl (ExternalError ''product page not found'') \<and>
   fst (generate_complete_store demo_services demo_db 1 ''https://shop.example/gone'') =
     Inl (ExternalError ''product page not found'') \<and>
   query_store (snd (generate_complete_store demo_services demo_db 1 ''https://shop.example/gone'')) 1 =
     Some (demo_store\<lparr>generation_progress := 10,
                       error_message := Some ''product page not found'',
                       status := ''error''\<rparr>)"
  using scrape_failure_is_fatal [OF demo_query demo_scrape_fails] demo_query demo_scrape_fails
  by (simp add: str_of_def)

text \<open>The theorem on a run that succeeds and on a run whose scrape fails.\<close>

theorem generation_progress_monotone_witness:
  "(\<exists>r. fst (generate_complete_store demo_services demo_db 1 ''https://shop.example/lamp'') = Inr r) \<and>
   progress_trace demo_db
     (snd (generate_complete_store demo_services demo_db 1 ''https://shop.example/lamp''))
     = [10, 25, 50, 75, 90, 100] \<and>
   (\<exists>e. fst (generate_complete_store demo_services demo_db 1 ''https://shop.example/gone'') = Inl e) \<and>
   sorted (progress_trace demo_db
     (snd (generate_complete_store demo_services demo_db 1 ''https://shop.example/gone''))) \<and>
   map_option status
     (query_store (snd (generate_complete_store demo_services demo_db 1 ''https://shop.example/gone'')) 1)
     = Some ''error''"
proof -
  let ?ok = "generate_complete_store demo_services demo_db 1 ''https://shop.example/lamp''"
  let ?bad = "generate_complete_store demo_services demo_db 1 ''https://shop.example/gone''"
  obtain gc where gc: "generate_complete_content (content_generator demo_services)
       \<lparr>title = sp_title demo_scraped, description = sp_description demo_scraped,
        features = sp_features demo_scraped, specifications = sp_specifications demo_scraped,
        category = sp_category demo_scraped, price_range = sp_price demo_scraped\<rparr> = Inr gc"
    using demo_content_ok by (cases "generate_complete_content (content_generator demo_services)
       \<lparr>title = sp_title demo_scraped, description = sp_description demo_scraped,
        features = sp_features demo_scraped, specifications = sp_specifications demo_scraped,
        category = sp_category demo_scraped, price_range = sp_price demo_scraped\<rparr>") auto
  have ok: "\<exists>r. fst ?ok = Inr r"
    using run_after_steps_ok [OF steps_success [OF demo_query demo_scrape_ok gc]] by simp
  have bad: "\<exists>e. fst ?bad = Inl e"
    using steps_scrape_fails [OF demo_query demo_scrape_fails]
    by (auto simp: generate_complete_store_def split: option.splits)
  note t_ok = generation_progress_monotone [of demo_services demo_db 1 "''https://shop.example/lamp''"
      "fst ?ok" "snd ?ok"]
  note t_bad = generation_progress_monotone [of demo_services demo_db 1 "''https://shop.example/gone''"
      "fst ?bad" "snd ?bad"]
  from t_ok ok have "progress_trace demo_db (snd ?ok) = [10, 25, 50, 75, 90, 100]"
    by (auto simp: checkpoints_def)
  moreover from t_bad have "sorted (progress_trace demo_db (snd ?bad))" by simp
  moreover from t_bad bad have "map_option status (query_store (snd ?bad) 1) = Some ''error''"
    by (auto simp: demo_query)
  ultimately show ?thesis using ok bad by blast
qed

section \<open>Properties of publishing\<close>





text \<open>
  Every request that the route rejects, for the status or because the current user has
  no such store, leaves the database as it is and makes no post. A request for the
  completed store is accepted; its background task posts the product and the two pages
  of the document and marks the store published.
\<close>

lemma rejected_request_makes_no_post:
  "fst (publish_request shop d sid current_user) = Inl e \<Longrightarrow>
   snd (publish_request shop d sid current_user) = (d, [])"
  by (auto simp: publish_request_def publish_store_def split: option.splits if_splits)

lemma completed_request_posts:
  "fst (publish_request demo_shop completed_db 1 demo_user) =
     Inr (JObj [(''message'', JStr ''Publishing started''), (''store_id'', JNum 1)]) \<and>
   map fst (snd (snd (publish_request demo_shop completed_db 1 demo_user))) =
     [''https://lamps.myshopify.com/admin/api/2024-04/products.json'',
      ''https://lamps.myshopify.com/admin/api/2024-04/pages.json'',
      ''https://lamps.myshopify.com/admin/api/2024-04/pages.json''] \<and>
   map status (store_rows (fst (snd (publish_request demo_shop completed_db 1 demo_user)))) =
     [''published'']"
  by code_simp

end
